theory Spec2Isabelle
  imports Main "HOL-Library.Sublist"
begin

section \<open>Errors\<close>

text \<open>
  The front end is TypeScript. Two kinds of exception occur in the code modelled here:
  a \<open>TypeError\<close> raised by the language itself (calling a property that is not a
  function), and the rejection of an HTTP call made through the axios instance \<open>api\<close>
  (network failure, the 30 second timeout, or an error status).
\<close>

datatype js_error = TypeError | AxiosError

section \<open>utils/eventEmitter.ts\<close>

text \<open>
  \<^verbatim>\<open>private events: { [key: string]: Array<(...args: any[]) => void> } = {};\<close>

  The field is an ordinary object literal, so reading \<open>this.events[event]\<close> finds
  either an own property (an array of listeners, put there by \<open>on\<close>), or a property
  inherited from \<open>Object.prototype\<close>, or \<open>undefined\<close>. The own properties are the
  map; the inherited names are listed in \<open>object_prototype_keys\<close>. Every inherited
  value is a function or (for \<open>__proto__\<close>) the prototype object itself: truthy, and
  without \<open>push\<close>, \<open>filter\<close> or \<open>forEach\<close>.

  Listeners are compared by reference (\<open>l !== listener\<close>); a listener is therefore a
  token of type \<open>'l\<close> whose equality is that identity, and what it does when called is
  given separately by a function \<open>call\<close>.
\<close>

type_synonym 'l EventEmitter = "string \<rightharpoonup> 'l list"

definition object_prototype_keys :: "string list" where
  "object_prototype_keys =
     [''constructor'', ''__defineGetter__'', ''__defineSetter__'', ''hasOwnProperty'',
      ''__lookupGetter__'', ''__lookupSetter__'', ''isPrototypeOf'',
      ''propertyIsEnumerable'', ''toString'', ''valueOf'', ''__proto__'',
      ''toLocaleString'']"

datatype 'l slot = Undefined | Array "'l list" | Inherited

definition events_get :: "'l EventEmitter \<Rightarrow> string \<Rightarrow> 'l slot" where
  "events_get em event =
     (case em event of
        Some ls \<Rightarrow> Array ls
      | None \<Rightarrow> if event \<in> set object_prototype_keys then Inherited else Undefined)"

definition new_EventEmitter :: "'l EventEmitter" where
  "new_EventEmitter = Map.empty"

text \<open>
  \<^verbatim>\<open>
  on(event, listener) {
    if (!this.events[event]) { this.events[event] = []; }
    this.events[event].push(listener);
  }\<close>
\<close>

definition on :: "string \<Rightarrow> 'l \<Rightarrow> 'l EventEmitter \<Rightarrow> js_error + 'l EventEmitter" where
  "on event listener em =
     (let em1 = (case events_get em event of Undefined \<Rightarrow> em(event \<mapsto> []) | _ \<Rightarrow> em)
      in case events_get em1 event of
           Array ls \<Rightarrow> Inr (em1(event \<mapsto> ls @ [listener]))
         | _ \<Rightarrow> Inl TypeError)"

text \<open>
  \<^verbatim>\<open>
  off(event, listener) {
    if (!this.events[event]) return;
    this.events[event] = this.events[event].filter(l => l !== listener);
  }\<close>
\<close>

definition off :: "string \<Rightarrow> 'l \<Rightarrow> 'l EventEmitter \<Rightarrow> js_error + 'l EventEmitter" where
  "off event listener em =
     (case events_get em event of
        Undefined \<Rightarrow> Inr em
      | Array ls \<Rightarrow> Inr (em(event \<mapsto> filter (\<lambda>l. l \<noteq> listener) ls))
      | Inherited \<Rightarrow> Inl TypeError)"

text \<open>
  \<open>Array.prototype.forEach\<close> over the listeners. Calling a listener changes the world
  \<open>'w\<close> and may throw; an exception leaves the loop at once, with the effects so far
  in place. The result also lists the listeners that were called, in call order.
  The range of \<open>forEach\<close> is fixed when it starts and \<open>off\<close> replaces the array
  instead of changing it, so the loop runs over the listeners registered when \<open>emit\<close>
  was called, whatever the listeners do to the emitter meanwhile.
\<close>

fun forEach :: "('l \<Rightarrow> 'w \<Rightarrow> 'w \<times> js_error option) \<Rightarrow> 'l list \<Rightarrow> 'w
                  \<Rightarrow> 'l list \<times> 'w \<times> js_error option" where
  "forEach f [] w = ([], w, None)"
| "forEach f (l # ls) w =
     (case f l w of
        (w', Some err) \<Rightarrow> ([l], w', Some err)
      | (w', None) \<Rightarrow> (case forEach f ls w' of (called, r) \<Rightarrow> (l # called, r)))"

text \<open>
  \<^verbatim>\<open>
  emit(event, ...args) {
    if (!this.events[event]) return;
    this.events[event].forEach(listener => listener(...args));
  }\<close>
\<close>

definition emit :: "('l \<Rightarrow> 'a \<Rightarrow> 'w \<Rightarrow> 'w \<times> js_error option) \<Rightarrow> string \<Rightarrow> 'a
                  \<Rightarrow> 'l EventEmitter \<Rightarrow> 'w \<Rightarrow> 'l list \<times> 'w \<times> js_error option" where
  "emit call event args em w =
     (case events_get em event of
        Undefined \<Rightarrow> ([], w, None)
      | Array ls \<Rightarrow> forEach (\<lambda>l. call l args) ls w
      | Inherited \<Rightarrow> ([], w, Some TypeError))"

text \<open>The registrations of an event, oldest first (none when the event has no array).\<close>

definition listeners :: "'l EventEmitter \<Rightarrow> string \<Rightarrow> 'l list" where
  "listeners em event = (case em event of Some ls \<Rightarrow> ls | None \<Rightarrow> [])"

text \<open>
  \<^verbatim>\<open>
  export const DOCUMENT_EVENTS = {
    UPLOADED: 'document:uploaded', DELETED: 'document:deleted', PROCESSED: 'document:processed' };\<close>
\<close>

definition UPLOADED :: string where "UPLOADED = ''document:uploaded''"
definition DELETED :: string where "DELETED = ''document:deleted''"
definition PROCESSED :: string where "PROCESSED = ''document:processed''"

section \<open>Data of the front end\<close>

text \<open>
  The interfaces of the TypeScript sources as records. A field whose name would clash
  with a constant of HOL or with a field of another record carries a short prefix
  (\<open>m_id\<close> for \<open>Message.id\<close>, \<open>d_id\<close> for \<open>Document.id\<close>, \<open>f_size\<close> for
  \<open>File.size\<close>). A \<open>Date\<close> is its time value. The \<open>score\<close> of a search result is a
  number that no function here computes with; an integer stands for it.
\<close>

type_synonym date = nat

datatype role = User | Assistant

record Message =
  m_id :: string
  m_role :: role
  m_content :: string
  m_timestamp :: date

record ChatSession =
  s_id :: string
  s_title :: string
  s_created_at :: date

record Document =
  d_id :: string
  filename :: string
  file_type :: string
  file_size :: nat
  processed :: bool
  created_at :: date

record Stats =
  total_chunks :: nat
  total_documents :: nat
  collection_name :: string
  embedding_model :: string

record SearchResult =
  content :: string
  file_path :: string
  sr_file_type :: string
  chunk_id :: nat
  sr_filename :: "string option"
  score :: int

text \<open>The browser's \<open>File\<close>: name, MIME type and size in bytes.\<close>

record File =
  f_name :: string
  f_type :: string
  f_size :: nat

text \<open>
  Bodies of the JSON requests and responses. A property whose value is \<open>undefined\<close>
  is left out of the JSON text, so an optional property is an \<open>option\<close>.
\<close>

record chat_request =
  message :: string
  session_id :: "string option"
  use_knowledge_base :: "bool option"
  selected_documents :: "string list"
  stream :: bool

record chat_response =
  response :: string
  resp_session_id :: "string option"

record server_message =
  sm_role :: role
  sm_content :: string
  sm_timestamp :: date

record search_request =
  query :: string
  n_results :: nat
  sq_file_type :: "string option"

datatype request =
    GET_chat_sessions
  | GET_chat_session_messages string
  | POST_chat_message chat_request
  | POST_documents_upload File
  | GET_documents_list "(nat \<times> nat) option"
  | DELETE_documents string
  | POST_knowledge_search search_request
  | GET_knowledge_statistics

text \<open>\<open>toast(...)\<close>, \<open>toast.success(...)\<close> and \<open>toast.error(...)\<close> of react-hot-toast.\<close>

datatype toast = Toast string | ToastSuccess string | ToastError string

text \<open>
  The two functions that the components register on \<open>documentEvents\<close>, and the
  continuations of the asynchronous functions that are started without \<open>await\<close>:
  such a call runs up to its first \<open>await\<close> (the request goes out) and the rest runs
  later, when the caller has long returned. A continuation carries the settled
  response and what its closure captured.
\<close>

datatype listener = KnowledgeBase_handleDocumentChange | ChatInterface_handleDocumentChange

datatype task =
    fetchSessions_resume "ChatSession option" "js_error + ChatSession list"
  | loadSessionMessages_resume "js_error + server_message list"
  | refreshDocuments_resume "js_error + Document list"
  | KnowledgeBase_fetchStats_resume "js_error + Stats"
  | KnowledgeBase_fetchDocuments_resume "js_error + Document list"
  | ChatInterface_fetchDocuments_resume "js_error + Document list"

section \<open>The world: React state, module state and what the page does to its surroundings\<close>

text \<open>
  One record holds the state of the providers and components (the \<open>useState\<close>
  cells), the module-level emitter \<open>documentEvents\<close>, the state of the backend
  behind the axios instance, and logs of the effects: every HTTP exchange with its
  outcome, the toasts, the console, and the events passed to \<open>documentEvents.emit\<close>.
  \<open>pending\<close> are the continuations not yet run; \<open>ticks\<close> counts the calls of
  \<open>uuidv4()\<close> / \<open>new Date()\<close>.
\<close>

record 'b world =
  server :: 'b
  requests :: "(request \<times> bool) list"
  toasts :: "toast list"
  console :: "string list"
  documentEvents :: "listener EventEmitter"
  emitted :: "string list"
  pending :: "task list"
  ticks :: nat
  messages :: "Message list"
  currentSession :: "ChatSession option"
  sessions :: "ChatSession list"
  documents :: "Document list"
  uploadingFiles :: "string list"
  kb_searchQuery :: string
  kb_searchResults :: "SearchResult list"
  kb_documents :: "Document list"
  kb_isSearching :: bool
  kb_isLoadingDocs :: bool
  kb_stats :: "Stats option"
  kb_selectedFileType :: string
  ci_documents :: "Document list"
  ci_selectedDocs :: "string list"

text \<open>
  The surroundings: the backend's endpoints as functions on its state (any backend
  whatever: each call may fail or answer, and may change the backend), and the values
  that \<open>uuidv4()\<close> and \<open>new Date()\<close> return and the text of \<open>Date.now()\<close> in a
  template literal, each at a given tick.
\<close>

record 'b env =
  chat_sessions :: "'b \<Rightarrow> (js_error + ChatSession list) \<times> 'b"
  chat_session_messages :: "string \<Rightarrow> 'b \<Rightarrow> (js_error + server_message list) \<times> 'b"
  chat_message :: "chat_request \<Rightarrow> 'b \<Rightarrow> (js_error + chat_response) \<times> 'b"
  documents_upload :: "File \<Rightarrow> 'b \<Rightarrow> (js_error + unit) \<times> 'b"
  documents_list :: "(nat \<times> nat) option \<Rightarrow> 'b \<Rightarrow> (js_error + Document list) \<times> 'b"
  documents_delete :: "string \<Rightarrow> 'b \<Rightarrow> (js_error + unit) \<times> 'b"
  knowledge_search :: "search_request \<Rightarrow> 'b \<Rightarrow> (js_error + SearchResult list) \<times> 'b"
  knowledge_statistics :: "'b \<Rightarrow> (js_error + Stats) \<times> 'b"
  uuidv4 :: "nat \<Rightarrow> string"
  new_Date :: "nat \<Rightarrow> date"
  Date_now :: "nat \<Rightarrow> string"

text \<open>
  services/api.ts: a call through the axios instance. The response interceptor logs
  a rejected call to the console and rejects again.
  \<^verbatim>\<open>
  api.interceptors.response.use(
    (response) => response,
    (error) => { console.error('API Error:', ...); return Promise.reject(error); });\<close>
\<close>

definition api :: "('b \<Rightarrow> (js_error + 'x) \<times> 'b) \<Rightarrow> request \<Rightarrow> 'b world
                 \<Rightarrow> (js_error + 'x) \<times> 'b world" where
  "api endpoint rq w =
     (case endpoint (server w) of
        (Inr x, b) \<Rightarrow> (Inr x, w\<lparr>server := b, requests := requests w @ [(rq, True)]\<rparr>)
      | (Inl err, b) \<Rightarrow>
          (Inl err, w\<lparr>server := b, requests := requests w @ [(rq, False)],
                      console := console w @ [''API Error:'']\<rparr>))"

text \<open>JavaScript truthiness of an optional string: \<open>undefined\<close> and \<open>''\<close> are falsy.\<close>

definition truthy :: "string option \<Rightarrow> bool" where
  "truthy v = (case v of None \<Rightarrow> False | Some s \<Rightarrow> s \<noteq> [])"

section \<open>contexts/ChatContext.tsx\<close>

text \<open>
  \<^verbatim>\<open>
  const loadSessionMessages = async (sessionId: string) => {
    try {
      const response = await api.get(`/chat/sessions/${sessionId}/messages`);
      setMessages(response.data.messages.map((msg: any) => ({
          id: uuidv4(), role: msg.role, content: msg.content,
          timestamp: new Date(msg.timestamp) })));
    } catch (error) { console.error('Failed to load messages:', error); }
  };\<close>
  Started without \<open>await\<close> by \<open>fetchSessions\<close>: the request goes out, the rest is
  the continuation \<open>loadSessionMessages_resume\<close>.
\<close>

definition loadSessionMessages :: "'b env \<Rightarrow> string \<Rightarrow> 'b world \<Rightarrow> 'b world" where
  "loadSessionMessages env sessionId w =
     (case api (chat_session_messages env sessionId) (GET_chat_session_messages sessionId) w of
        (r, w1) \<Rightarrow> w1\<lparr>pending := pending w1 @ [loadSessionMessages_resume r]\<rparr>)"

definition loadSessionMessages_then :: "'b env \<Rightarrow> js_error + server_message list \<Rightarrow> 'b world
                                        \<Rightarrow> 'b world" where
  "loadSessionMessages_then env r w =
     (case r of
        Inr msgs \<Rightarrow>
          w\<lparr>ticks := ticks w + length msgs,
            messages := map (\<lambda>(i, msg). \<lparr>m_id = uuidv4 env (ticks w + i), m_role = sm_role msg,
                                          m_content = sm_content msg,
                                          m_timestamp = sm_timestamp msg\<rparr>)
                            (enumerate 0 msgs)\<rparr>
      | Inl err \<Rightarrow> w\<lparr>console := console w @ [''Failed to load messages:'']\<rparr>)"

text \<open>
  \<^verbatim>\<open>
  const fetchSessions = async () => {
    try {
      const response = await api.get('/chat/sessions');
      setSessions(response.data.sessions);
      if (response.data.sessions.length > 0 && !currentSession) {
        setCurrentSession(response.data.sessions[0]);
        loadSessionMessages(response.data.sessions[0].id);
      }
    } catch (error) { console.error('Failed to fetch sessions:', error); }
  };\<close>
  Never awaited by its callers. \<open>currentSession\<close> is the value its closure captured
  when the call was made.
\<close>

definition fetchSessions :: "'b env \<Rightarrow> 'b world \<Rightarrow> 'b world" where
  "fetchSessions env w =
     (case api (chat_sessions env) GET_chat_sessions w of
        (r, w1) \<Rightarrow> w1\<lparr>pending := pending w1 @ [fetchSessions_resume (currentSession w) r]\<rparr>)"

definition fetchSessions_then :: "'b env \<Rightarrow> ChatSession option \<Rightarrow> js_error + ChatSession list
                                  \<Rightarrow> 'b world \<Rightarrow> 'b world" where
  "fetchSessions_then env closure_currentSession r w =
     (case r of
        Inr ss \<Rightarrow>
          (case ss of
             s # _ \<Rightarrow>
               if closure_currentSession = None
               then loadSessionMessages env (s_id s)
                      (w\<lparr>sessions := ss, currentSession := Some s\<rparr>)
               else w\<lparr>sessions := ss\<rparr>
           | [] \<Rightarrow> w\<lparr>sessions := ss\<rparr>)
      | Inl err \<Rightarrow> w\<lparr>console := console w @ [''Failed to fetch sessions:'']\<rparr>)"

text \<open>
  \<^verbatim>\<open>
  const sendMessage = async (content: string, selectedDocIds?: string[]) => {
    const userMessage: Message = { id: uuidv4(), role: 'user', content, timestamp: new Date() };
    setMessages((prev) => [...prev, userMessage]);
    try {
      const response = await api.post('/chat/message', {
        message: content,
        session_id: currentSession?.id,
        use_knowledge_base: selectedDocIds && selectedDocIds.length > 0,
        selected_documents: selectedDocIds || [],
        stream: false,
      });
      const assistantMessage: Message = { id: uuidv4(), role: 'assistant',
        content: response.data.response, timestamp: new Date() };
      setMessages((prev) => [...prev, assistantMessage]);
      if (!currentSession && response.data.session_id) { fetchSessions(); }
    } catch (error) { console.error('Failed to send message:', error); throw error; }
  };\<close>
  The object literal of the request is \<open>message_body\<close>. The result of
  \<open>sendMessage\<close> is the world when the promise settles and the error it rejects
  with, if any. \<open>selectedDocIds && selectedDocIds.length > 0\<close> is \<open>undefined\<close> for a missing
  argument, and a comparison otherwise (an empty array is truthy).
\<close>

definition message_body :: "string \<Rightarrow> string list option \<Rightarrow> 'b world \<Rightarrow> chat_request" where
  "message_body content_text selectedDocIds w =
     \<lparr>message = content_text,
      session_id = map_option s_id (currentSession w),
      use_knowledge_base = map_option (\<lambda>ids. length ids > 0) selectedDocIds,
      selected_documents = (case selectedDocIds of Some ids \<Rightarrow> ids | None \<Rightarrow> []),
      stream = False\<rparr>"

definition sendMessage :: "'b env \<Rightarrow> string \<Rightarrow> string list option \<Rightarrow> 'b world
                           \<Rightarrow> 'b world \<times> js_error option" where
  "sendMessage env content_text selectedDocIds w =
     (let userMessage = \<lparr>m_id = uuidv4 env (ticks w), m_role = User, m_content = content_text,
                          m_timestamp = new_Date env (ticks w)\<rparr>;
          w1 = w\<lparr>ticks := Suc (ticks w), messages := messages w @ [userMessage]\<rparr>;
          body = message_body content_text selectedDocIds w
      in case api (chat_message env body) (POST_chat_message body) w1 of
           (Inr data, w2) \<Rightarrow>
             (let assistantMessage = \<lparr>m_id = uuidv4 env (ticks w2), m_role = Assistant,
                                       m_content = response data,
                                       m_timestamp = new_Date env (ticks w2)\<rparr>;
                  w3 = w2\<lparr>ticks := Suc (ticks w2),
                           messages := messages w2 @ [assistantMessage]\<rparr>
              in (if currentSession w = None \<and> truthy (resp_session_id data)
                  then fetchSessions env w3 else w3, None))
         | (Inl err, w2) \<Rightarrow>
             (w2\<lparr>console := console w2 @ [''Failed to send message:'']\<rparr>, Some err))"

text \<open>\<^verbatim>\<open>const clearMessages = () => { setMessages([]); };\<close>\<close>

definition clearMessages :: "'b world \<Rightarrow> 'b world" where
  "clearMessages w = w\<lparr>messages := []\<rparr>"

text \<open>The bodies of the chat requests in a log of exchanges, in order.\<close>

fun chat_requests :: "(request \<times> bool) list \<Rightarrow> chat_request list" where
  "chat_requests [] = []"
| "chat_requests ((POST_chat_message body, ok) # xs) = body # chat_requests xs"
| "chat_requests (x # xs) = chat_requests xs"

section \<open>contexts/DocumentContext.tsx\<close>

text \<open>
  \<^verbatim>\<open>
  const refreshDocuments = async () => {
    try {
      const response = await api.get('/documents/list');
      setDocuments(response.data.documents);
    } catch (error) { console.error('Failed to fetch documents:', error); }
  };\<close>
  \<open>refreshDocuments\<close> is the call without \<open>await\<close> (in \<open>onDrop\<close> and
  \<open>handleDelete\<close>), \<open>refreshDocuments_await\<close> the awaited call in \<open>uploadDocument\<close>.
  Neither can throw: the function catches everything.
\<close>

definition refreshDocuments_then :: "js_error + Document list \<Rightarrow> 'b world \<Rightarrow> 'b world" where
  "refreshDocuments_then r w =
     (case r of
        Inr docs \<Rightarrow> w\<lparr>documents := docs\<rparr>
      | Inl err \<Rightarrow> w\<lparr>console := console w @ [''Failed to fetch documents:'']\<rparr>)"

definition refreshDocuments :: "'b env \<Rightarrow> 'b world \<Rightarrow> 'b world" where
  "refreshDocuments env w =
     (case api (documents_list env None) (GET_documents_list None) w of
        (r, w1) \<Rightarrow> w1\<lparr>pending := pending w1 @ [refreshDocuments_resume r]\<rparr>)"

definition refreshDocuments_await :: "'b env \<Rightarrow> 'b world \<Rightarrow> 'b world" where
  "refreshDocuments_await env w =
     (case api (documents_list env None) (GET_documents_list None) w of
        (r, w1) \<Rightarrow> refreshDocuments_then r w1)"

text \<open>
  \<^verbatim>\<open>
  const uploadDocument = async (file: File) => {
    const formData = new FormData();
    formData.append('file', file);
    try {
      await api.post('/documents/upload', formData, { headers: { ... } });
      await refreshDocuments();
    } catch (error) { console.error('Failed to upload document:', error); throw error; }
  };\<close>
\<close>

definition uploadDocument :: "'b env \<Rightarrow> File \<Rightarrow> 'b world \<Rightarrow> 'b world \<times> js_error option" where
  "uploadDocument env file w =
     (case api (documents_upload env file) (POST_documents_upload file) w of
        (Inr u, w1) \<Rightarrow> (refreshDocuments_await env w1, None)
      | (Inl err, w1) \<Rightarrow>
          (w1\<lparr>console := console w1 @ [''Failed to upload document:'']\<rparr>, Some err))"

text \<open>
  \<^verbatim>\<open>
  const deleteDocument = async (documentId: string) => {
    try {
      await api.delete(`/documents/${documentId}`);
      setDocuments((prev) => prev.filter((doc) => doc.id !== documentId));
    } catch (error) { console.error('Failed to delete document:', error); throw error; }
  };\<close>
\<close>

definition deleteDocument :: "'b env \<Rightarrow> string \<Rightarrow> 'b world \<Rightarrow> 'b world \<times> js_error option" where
  "deleteDocument env documentId w =
     (case api (documents_delete env documentId) (DELETE_documents documentId) w of
        (Inr u, w1) \<Rightarrow>
          (w1\<lparr>documents := filter (\<lambda>doc. d_id doc \<noteq> documentId) (documents w1)\<rparr>, None)
      | (Inl err, w1) \<Rightarrow>
          (w1\<lparr>console := console w1 @ [''Failed to delete document:'']\<rparr>, Some err))"

section \<open>components/KnowledgeBase.tsx: fetching\<close>

text \<open>
  \<^verbatim>\<open>
  const fetchStats = async () => {
    try { const response = await knowledgeApi.getStats(); setStats(response.data); }
    catch (error) { console.error('Failed to fetch stats:', error); }
  };
  const fetchDocuments = async () => {
    setIsLoadingDocs(true);
    try {
      const response = await documentApi.list(0, 100);
      setDocuments(response.data.documents);
    } catch (error) {
      console.error('Failed to fetch documents:', error);
      toast.error('Failed to load documents');
    } finally { setIsLoadingDocs(false); }
  };\<close>
  Both are only ever called without \<open>await\<close>.
\<close>

definition KnowledgeBase_fetchStats_then :: "js_error + Stats \<Rightarrow> 'b world \<Rightarrow> 'b world" where
  "KnowledgeBase_fetchStats_then r w =
     (case r of
        Inr st \<Rightarrow> w\<lparr>kb_stats := Some st\<rparr>
      | Inl err \<Rightarrow> w\<lparr>console := console w @ [''Failed to fetch stats:'']\<rparr>)"

definition KnowledgeBase_fetchStats :: "'b env \<Rightarrow> 'b world \<Rightarrow> 'b world" where
  "KnowledgeBase_fetchStats env w =
     (case api (knowledge_statistics env) GET_knowledge_statistics w of
        (r, w1) \<Rightarrow> w1\<lparr>pending := pending w1 @ [KnowledgeBase_fetchStats_resume r]\<rparr>)"

definition KnowledgeBase_fetchDocuments_then :: "js_error + Document list \<Rightarrow> 'b world
                                                 \<Rightarrow> 'b world" where
  "KnowledgeBase_fetchDocuments_then r w =
     (case r of
        Inr docs \<Rightarrow> w\<lparr>kb_documents := docs, kb_isLoadingDocs := False\<rparr>
      | Inl err \<Rightarrow> w\<lparr>console := console w @ [''Failed to fetch documents:''],
                       toasts := toasts w @ [ToastError ''Failed to load documents''],
                       kb_isLoadingDocs := False\<rparr>)"

definition KnowledgeBase_fetchDocuments :: "'b env \<Rightarrow> 'b world \<Rightarrow> 'b world" where
  "KnowledgeBase_fetchDocuments env w =
     (case api (documents_list env (Some (0, 100))) (GET_documents_list (Some (0, 100)))
             (w\<lparr>kb_isLoadingDocs := True\<rparr>) of
        (r, w1) \<Rightarrow> w1\<lparr>pending := pending w1 @ [KnowledgeBase_fetchDocuments_resume r]\<rparr>)"

section \<open>The chat interface: fetching\<close>

text \<open>
  \<^verbatim>\<open>
  const fetchDocuments = async () => {
    try {
      const response = await documentApi.list(0, 100);
      setDocuments(response.data.documents.filter((doc: Document) => doc.processed));
    } catch (error) { console.error('Failed to fetch documents:', error); }
  };\<close>
  Only ever called without \<open>await\<close> (on mount and by \<open>handleDocumentChange\<close>).
\<close>

definition ChatInterface_fetchDocuments_then :: "js_error + Document list \<Rightarrow> 'b world
                                                 \<Rightarrow> 'b world" where
  "ChatInterface_fetchDocuments_then r w =
     (case r of
        Inr docs \<Rightarrow> w\<lparr>ci_documents := filter (\<lambda>doc. processed doc) docs\<rparr>
      | Inl err \<Rightarrow> w\<lparr>console := console w @ [''Failed to fetch documents:'']\<rparr>)"

definition ChatInterface_fetchDocuments :: "'b env \<Rightarrow> 'b world \<Rightarrow> 'b world" where
  "ChatInterface_fetchDocuments env w =
     (case api (documents_list env (Some (0, 100))) (GET_documents_list (Some (0, 100))) w of
        (r, w1) \<Rightarrow> w1\<lparr>pending := pending w1 @ [ChatInterface_fetchDocuments_resume r]\<rparr>)"

text \<open>
  \<^verbatim>\<open>
  const toggleDocSelection = (docId: string) => {
    setSelectedDocs(prev => prev.includes(docId) ? prev.filter(id => id !== docId) : [...prev, docId]);
  };\<close>
  The dropdown renders one checkbox per element of \<open>documents\<close>, whose \<open>onChange\<close> is
  \<open>toggleDocSelection(doc.id)\<close>: \<open>offered\<close> are the ids that can be chosen.
\<close>

definition toggleDocSelection :: "string \<Rightarrow> 'b world \<Rightarrow> 'b world" where
  "toggleDocSelection docId w =
     w\<lparr>ci_selectedDocs := (if docId \<in> set (ci_selectedDocs w)
                            then filter (\<lambda>i. i \<noteq> docId) (ci_selectedDocs w)
                            else ci_selectedDocs w @ [docId])\<rparr>"

definition offered :: "'b world \<Rightarrow> string list" where
  "offered w = map d_id (ci_documents w)"

section \<open>The listeners of documentEvents\<close>

text \<open>
  KnowledgeBase.tsx:
  \<^verbatim>\<open>
  const handleDocumentChange = () => { fetchDocuments(); fetchStats(); };
  documentEvents.on(DOCUMENT_EVENTS.UPLOADED, handleDocumentChange);
  documentEvents.on(DOCUMENT_EVENTS.DELETED, handleDocumentChange);
  return () => {
    documentEvents.off(DOCUMENT_EVENTS.UPLOADED, handleDocumentChange);
    documentEvents.off(DOCUMENT_EVENTS.DELETED, handleDocumentChange); };\<close>
  The chat interface:
  \<^verbatim>\<open>
  const handleDocumentChange = () => {
    fetchDocuments();
    setSelectedDocs(prev => { return prev.filter(id => documents.some(doc => doc.id === id)); });
  };\<close>
  Its effect depends on \<open>[documents]\<close>, so the registered closure always holds the
  current \<open>documents\<close>. Neither function can throw: the fetches are asynchronous
  functions, which return a promise whatever happens inside.
\<close>

fun run_listener :: "'b env \<Rightarrow> listener \<Rightarrow> unit \<Rightarrow> 'b world \<Rightarrow> 'b world \<times> js_error option" where
  "run_listener env KnowledgeBase_handleDocumentChange args w =
     (KnowledgeBase_fetchStats env (KnowledgeBase_fetchDocuments env w), None)"
| "run_listener env ChatInterface_handleDocumentChange args w =
     (let w1 = ChatInterface_fetchDocuments env w
      in (w1\<lparr>ci_selectedDocs := filter (\<lambda>i. i \<in> set (map d_id (ci_documents w)))
                                        (ci_selectedDocs w1)\<rparr>, None))"

text \<open>
  \<open>documentEvents.emit(event)\<close> on the module's emitter, with the event noted in
  \<open>emitted\<close>.
\<close>

definition documentEvents_emit :: "'b env \<Rightarrow> string \<Rightarrow> 'b world \<Rightarrow> 'b world \<times> js_error option" where
  "documentEvents_emit env event w =
     snd (emit (run_listener env) event () (documentEvents w)
            (w\<lparr>emitted := emitted w @ [event]\<rparr>))"

text \<open>The requests a listener sends when it is called.\<close>

fun listener_requests :: "listener \<Rightarrow> request list" where
  "listener_requests KnowledgeBase_handleDocumentChange
     = [GET_documents_list (Some (0, 100)), GET_knowledge_statistics]"
| "listener_requests ChatInterface_handleDocumentChange = [GET_documents_list (Some (0, 100))]"

text \<open>The mount effect of the knowledge-base view and its cleanup.\<close>

definition KnowledgeBase_mount :: "'b env \<Rightarrow> 'b world \<Rightarrow> 'b world \<times> js_error option" where
  "KnowledgeBase_mount env w =
     (let w1 = KnowledgeBase_fetchDocuments env (KnowledgeBase_fetchStats env w)
      in case on UPLOADED KnowledgeBase_handleDocumentChange (documentEvents w1) of
           Inl err \<Rightarrow> (w1, Some err)
         | Inr em1 \<Rightarrow>
             (case on DELETED KnowledgeBase_handleDocumentChange em1 of
                Inl err \<Rightarrow> (w1\<lparr>documentEvents := em1\<rparr>, Some err)
              | Inr em2 \<Rightarrow> (w1\<lparr>documentEvents := em2\<rparr>, None)))"

definition KnowledgeBase_unmount :: "'b world \<Rightarrow> 'b world \<times> js_error option" where
  "KnowledgeBase_unmount w =
     (case off UPLOADED KnowledgeBase_handleDocumentChange (documentEvents w) of
        Inl err \<Rightarrow> (w, Some err)
      | Inr em1 \<Rightarrow>
          (case off DELETED KnowledgeBase_handleDocumentChange em1 of
             Inl err \<Rightarrow> (w\<lparr>documentEvents := em1\<rparr>, Some err)
           | Inr em2 \<Rightarrow> (w\<lparr>documentEvents := em2\<rparr>, None)))"

section \<open>components/DocumentUpload.tsx\<close>

text \<open>
  \<^verbatim>\<open>
  const onDrop = useCallback(async (acceptedFiles: File[]) => {
    for (const file of acceptedFiles) {
      const fileId = `${file.name}-${Date.now()}`;
      setUploadingFiles((prev) => new Set(prev).add(fileId));
      try {
        await uploadDocument(file);
        toast.success(`${file.name} uploaded successfully`);
        documentEvents.emit(DOCUMENT_EVENTS.UPLOADED);
      } catch (error) {
        toast.error(`Failed to upload ${file.name}`);
        console.error('Upload error:', error);
      } finally {
        setUploadingFiles((prev) => { const newSet = new Set(prev); newSet.delete(fileId); return newSet; });
      }
    }
    refreshDocuments();
  }, [uploadDocument, refreshDocuments]);\<close>
  \<open>onDrop_file\<close> is the body of the loop (\<open>onDrop_try\<close> its \<open>try\<close> and \<open>catch\<close>
  blocks, \<open>onDrop_catch\<close> the \<open>catch\<close> block), \<open>onDrop_loop\<close> the loop. The \<open>Set\<close> of
  file ids is a list without repetitions, in insertion order; \<open>uploadingFiles_add\<close>
  and \<open>uploadingFiles_delete\<close> are the two \<open>setUploadingFiles\<close> updates.
\<close>

definition onDrop_catch :: "File \<Rightarrow> 'b world \<Rightarrow> 'b world" where
  "onDrop_catch file w =
     w\<lparr>toasts := toasts w @ [ToastError (''Failed to upload '' @ f_name file)],
       console := console w @ [''Upload error:'']\<rparr>"

definition uploadingFiles_add :: "string \<Rightarrow> 'b world \<Rightarrow> 'b world" where
  "uploadingFiles_add fileId w =
     w\<lparr>uploadingFiles := (if fileId \<in> set (uploadingFiles w) then uploadingFiles w
                          else uploadingFiles w @ [fileId])\<rparr>"

definition uploadingFiles_delete :: "string \<Rightarrow> 'b world \<Rightarrow> 'b world" where
  "uploadingFiles_delete fileId w = w\<lparr>uploadingFiles := removeAll fileId (uploadingFiles w)\<rparr>"

definition onDrop_try :: "'b env \<Rightarrow> File \<Rightarrow> 'b world \<Rightarrow> 'b world" where
  "onDrop_try env file w =
     (case uploadDocument env file w of
        (wu, Some err) \<Rightarrow> onDrop_catch file wu
      | (wu, None) \<Rightarrow>
          (case documentEvents_emit env UPLOADED
                  (wu\<lparr>toasts := toasts wu
                         @ [ToastSuccess (f_name file @ '' uploaded successfully'')]\<rparr>) of
             (we, Some err) \<Rightarrow> onDrop_catch file we
           | (we, None) \<Rightarrow> we))"

definition onDrop_file :: "'b env \<Rightarrow> File \<Rightarrow> 'b world \<Rightarrow> 'b world" where
  "onDrop_file env file w =
     (let fileId = f_name file @ ''-'' @ Date_now env (ticks w)
      in uploadingFiles_delete fileId
           (onDrop_try env file (uploadingFiles_add fileId (w\<lparr>ticks := Suc (ticks w)\<rparr>))))"

fun onDrop_loop :: "'b env \<Rightarrow> File list \<Rightarrow> 'b world \<Rightarrow> 'b world" where
  "onDrop_loop env [] w = w"
| "onDrop_loop env (file # files) w = onDrop_loop env files (onDrop_file env file w)"

definition onDrop :: "'b env \<Rightarrow> File list \<Rightarrow> 'b world \<Rightarrow> 'b world" where
  "onDrop env acceptedFiles w = refreshDocuments env (onDrop_loop env acceptedFiles w)"

text \<open>
  \<^verbatim>\<open>
  const handleDelete = async (documentId: string) => {
    if (confirm('Are you sure you want to delete this document?')) {
      try {
        await deleteDocument(documentId);
        toast.success('Document deleted successfully');
        refreshDocuments();
        documentEvents.emit(DOCUMENT_EVENTS.DELETED);
      } catch (error) {
        toast.error('Failed to delete document');
        console.error('Delete error:', error);
      }
    }
  };\<close>
  \<open>answer\<close> is what the user answers to \<open>confirm\<close>.
\<close>

definition delete_catch :: "'b world \<Rightarrow> 'b world" where
  "delete_catch w =
     w\<lparr>toasts := toasts w @ [ToastError ''Failed to delete document''],
       console := console w @ [''Delete error:'']\<rparr>"

definition handleDelete :: "'b env \<Rightarrow> bool \<Rightarrow> string \<Rightarrow> 'b world \<Rightarrow> 'b world" where
  "handleDelete env answer documentId w =
     (if answer then
        (case deleteDocument env documentId w of
           (wd, Some err) \<Rightarrow> delete_catch wd
         | (wd, None) \<Rightarrow>
             (case documentEvents_emit env DELETED
                     (refreshDocuments env
                        (wd\<lparr>toasts := toasts wd @ [ToastSuccess ''Document deleted successfully'']\<rparr>)) of
                (we, Some err) \<Rightarrow> delete_catch we
              | (we, None) \<Rightarrow> we))
      else w)"

text \<open>
  \<^verbatim>\<open>
  const { getRootProps, getInputProps, isDragActive } = useDropzone({
    onDrop,
    accept: {
      'application/pdf': ['.pdf'],
      'application/vnd.openxmlformats-officedocument.wordprocessingml.document': ['.docx'],
      'text/plain': ['.txt'],
      'text/markdown': ['.md'],
      'image/jpeg': ['.jpg', '.jpeg'],
      'image/png': ['.png'],
    },
    maxSize: 10485760, // 10MB
  });\<close>
  The two options are in the source; the check itself is made by the package
  react-dropzone, whose code is not.
\<close>

definition accept :: "(string \<times> string list) list" where
  "accept =
     [(''application/pdf'', [''.pdf'']),
      (''application/vnd.openxmlformats-officedocument.wordprocessingml.document'', [''.docx'']),
      (''text/plain'', [''.txt'']),
      (''text/markdown'', [''.md'']),
      (''image/jpeg'', [''.jpg'', ''.jpeg'']),
      (''image/png'', [''.png''])]"

definition maxSize :: nat where
  "maxSize = 10485760"

text \<open>
  Modelled from the spec: the check that \<open>useDropzone\<close> (package react-dropzone, not
  among the sources) applies to every file offered, before it calls \<open>onDrop\<close> with the
  files that passed. The spec: "oversize or disallowed-type uploads are rejected before
  entering the IngestionPipeline", for the accepted types "plain text, Markdown, PDF, a
  common word-processor format, and raster images". A file has an accepted type when
  it matches an entry of \<open>accept\<close>: its MIME type is the entry's key, or its name ends
  with one of the entry's extensions. It is oversize when its size exceeds \<open>maxSize\<close>.
\<close>

definition type_accepted :: "File \<Rightarrow> bool" where
  "type_accepted file =
     list_ex (\<lambda>(mime, exts). f_type file = mime \<or> list_ex (\<lambda>ext. suffix ext (f_name file)) exts)
       accept"

text \<open>
  Modelled from the spec: a file offered to \<open>useDropzone\<close> is passed on when its type
  is accepted and it is not oversize; every other file is rejected.
\<close>

definition useDropzone_accepts :: "File \<Rightarrow> bool" where
  "useDropzone_accepts file = (type_accepted file \<and> f_size file \<le> maxSize)"

text \<open>
  Modelled from the spec: a drop on the upload area. \<open>useDropzone\<close> calls the \<open>onDrop\<close>
  it was given with the files that passed the check, in the order offered.
\<close>

definition useDropzone_drop :: "'b env \<Rightarrow> File list \<Rightarrow> 'b world \<Rightarrow> 'b world" where
  "useDropzone_drop env files w = onDrop env (filter useDropzone_accepts files) w"

text \<open>The upload requests in a log of exchanges, each with its outcome, in order.\<close>

fun uploads :: "(request \<times> bool) list \<Rightarrow> (File \<times> bool) list" where
  "uploads [] = []"
| "uploads ((POST_documents_upload file, ok) # xs) = (file, ok) # uploads xs"
| "uploads (x # xs) = uploads xs"

section \<open>components/KnowledgeBase.tsx: handlers\<close>

text \<open>
  \<open>String.prototype.trim\<close> on a string of 8-bit characters: the white space and line
  terminators of JavaScript below 256 are tab, line feed, vertical tab, form feed,
  carriage return, space and no-break space.
\<close>

definition is_space :: "char \<Rightarrow> bool" where
  "is_space ch = (of_char ch \<in> {9, 10, 11, 12, 13, 32, 160 :: nat})"

definition trim :: "string \<Rightarrow> string" where
  "trim s = rev (dropWhile is_space (rev (dropWhile is_space s)))"

text \<open>
  \<^verbatim>\<open>
  const handleSearch = async (e: React.FormEvent) => {
    e.preventDefault();
    if (!searchQuery.trim()) return;
    setIsSearching(true);
    try {
      const response = await knowledgeApi.search(
        searchQuery, 10, selectedFileType !== 'all' ? selectedFileType : undefined);
      setSearchResults(response.data.results);
      if (response.data.results.length === 0) {
        toast('No results found. Try a different query.', { icon: ... });
      }
    } catch (error) {
      toast.error('Search failed. Please try again.');
      console.error('Search error:', error);
    } finally { setIsSearching(false); }
  };\<close>
\<close>

definition search_body :: "'b world \<Rightarrow> search_request" where
  "search_body w =
     \<lparr>query = kb_searchQuery w, n_results = 10,
      sq_file_type = (if kb_selectedFileType w \<noteq> ''all'' then Some (kb_selectedFileType w)
                      else None)\<rparr>"

definition handleSearch :: "'b env \<Rightarrow> 'b world \<Rightarrow> 'b world" where
  "handleSearch env w =
     (if trim (kb_searchQuery w) = [] then w
      else
        (case api (knowledge_search env (search_body w)) (POST_knowledge_search (search_body w))
                (w\<lparr>kb_isSearching := True\<rparr>) of
           (Inr results, w1) \<Rightarrow>
             w1\<lparr>kb_searchResults := results,
                toasts := toasts w1 @ (if length results = 0
                                       then [Toast ''No results found. Try a different query.'']
                                       else []),
                kb_isSearching := False\<rparr>
         | (Inl err, w1) \<Rightarrow>
             w1\<lparr>toasts := toasts w1 @ [ToastError ''Search failed. Please try again.''],
                console := console w1 @ [''Search error:''],
                kb_isSearching := False\<rparr>))"

text \<open>
  \<^verbatim>\<open>
  const deleteDocument = async (documentId: string) => {
    if (confirm('Are you sure ...')) {
      try {
        await documentApi.delete(documentId);
        toast.success('Document deleted successfully');
        fetchDocuments();
        fetchStats();
        documentEvents.emit(DOCUMENT_EVENTS.DELETED);
      } catch (error) {
        toast.error('Failed to delete document');
        console.error('Delete error:', error);
      }
    }
  };\<close>
\<close>

definition KnowledgeBase_deleteDocument :: "'b env \<Rightarrow> bool \<Rightarrow> string \<Rightarrow> 'b world \<Rightarrow> 'b world" where
  "KnowledgeBase_deleteDocument env answer documentId w =
     (if answer then
        (case api (documents_delete env documentId) (DELETE_documents documentId) w of
           (Inl err, wd) \<Rightarrow> delete_catch wd
         | (Inr u, wd) \<Rightarrow>
             (case documentEvents_emit env DELETED
                     (KnowledgeBase_fetchStats env
                        (KnowledgeBase_fetchDocuments env
                           (wd\<lparr>toasts := toasts wd
                                  @ [ToastSuccess ''Document deleted successfully'']\<rparr>))) of
                (we, Some err) \<Rightarrow> delete_catch we
              | (we, None) \<Rightarrow> we))
      else w)"

section \<open>Continuations\<close>

text \<open>
  Running a continuation, and one turn of the event loop: the oldest pending
  continuation runs.
\<close>

fun run_task :: "'b env \<Rightarrow> task \<Rightarrow> 'b world \<Rightarrow> 'b world" where
  "run_task env (fetchSessions_resume closure_currentSession r) w =
     fetchSessions_then env closure_currentSession r w"
| "run_task env (loadSessionMessages_resume r) w = loadSessionMessages_then env r w"
| "run_task env (refreshDocuments_resume r) w = refreshDocuments_then r w"
| "run_task env (KnowledgeBase_fetchStats_resume r) w = KnowledgeBase_fetchStats_then r w"
| "run_task env (KnowledgeBase_fetchDocuments_resume r) w = KnowledgeBase_fetchDocuments_then r w"
| "run_task env (ChatInterface_fetchDocuments_resume r) w = ChatInterface_fetchDocuments_then r w"

definition run_next :: "'b env \<Rightarrow> 'b world \<Rightarrow> 'b world" where
  "run_next env w =
     (case pending w of [] \<Rightarrow> w | t # ts \<Rightarrow> run_task env t (w\<lparr>pending := ts\<rparr>))"

section \<open>The ingestion pipeline of the backend\<close>

text \<open>
  The backend (\<open>backend/app/...\<close>) is not among the sources; what follows is
  written from sections 4.3 and 4.4 of the specification. The components of an
  embedding vector are of an arbitrary type \<open>'a\<close>: nothing here computes with them.
\<close>

datatype status = Pending | Extracting | Chunking | Embedding | Indexing | Processed | Failed

datatype ingest_error =
  ConfigurationError | ExtractionFailed | EmbeddingUnavailable | IndexWriteFailed | DimensionMismatch

record fragment =
  fr_index :: nat
  fr_text :: string
  fr_span :: "nat \<times> nat"

record 'a entry =
  e_doc :: string
  e_fragment :: nat
  e_vector :: "'a list"
  e_text :: string

record 'a VectorIndex =
  dimension :: nat
  entries :: "'a entry list"

text \<open>
  Modelled from the spec: \<open>VectorIndex.upsert\<close> of the backend, section 4.3: "inserts
  or replaces one entry. Must reject (fails with DimensionMismatch) vectors whose
  length differs from the index's fixed dimension". An entry is identified by its
  document and its sequence index within the document.
\<close>

definition upsert :: "'a entry \<Rightarrow> 'a VectorIndex \<Rightarrow> ingest_error + 'a VectorIndex" where
  "upsert e idx =
     (if length (e_vector e) \<noteq> dimension idx then Inl DimensionMismatch
      else Inr (idx\<lparr>entries := filter (\<lambda>x. \<not> (e_doc x = e_doc e \<and> e_fragment x = e_fragment e))
                                     (entries idx) @ [e]\<rparr>))"

text \<open>
  Modelled from the spec: \<open>VectorIndex.delete\<close> of the backend, section 4.3: "removes
  all entries belonging to that document; idempotent".
\<close>

definition delete_document :: "string \<Rightarrow> 'a VectorIndex \<Rightarrow> 'a VectorIndex" where
  "delete_document d idx = idx\<lparr>entries := filter (\<lambda>e. e_doc e \<noteq> d) (entries idx)\<rparr>"

text \<open>
  The external capabilities of section 4: the text extractor, the chunker, the
  embedding provider (after its retries), and whether the store takes a given write.
\<close>

record 'a capabilities =
  cap_extract :: "string \<Rightarrow> ingest_error + string"
  cap_chunk :: "string \<Rightarrow> ingest_error + fragment list"
  cap_embed :: "string list \<Rightarrow> ingest_error + 'a list list"
  cap_writable :: "'a entry \<Rightarrow> bool"

text \<open>
  Modelled from the spec: the indexing stage of the backend's IngestionPipeline,
  section 4.4: the entries are written one after the other; "index failures propagate
  IndexWriteFailed". The writes made before a failure stay in the index that is
  returned with the error.
\<close>

fun index_all :: "'a capabilities \<Rightarrow> 'a entry list \<Rightarrow> 'a VectorIndex
                    \<Rightarrow> 'a VectorIndex \<times> ingest_error option" where
  "index_all c [] idx = (idx, None)"
| "index_all c (e # es) idx =
     (if \<not> cap_writable c e then (idx, Some IndexWriteFailed)
      else case upsert e idx of
             Inl err \<Rightarrow> (idx, Some err)
           | Inr idx' \<Rightarrow> index_all c es idx')"

record 'a ingested =
  index :: "'a VectorIndex"
  final :: status
  visited :: "status list"
  failure :: "ingest_error option"

text \<open>
  Modelled from the spec: the \<open>failed\<close> transition of the backend's IngestionPipeline,
  section 4.4: "On failure at any stage, partially written Fragments/vectors for that
  document must be rolled back (either not yet written, or explicitly deleted)".
\<close>

definition fail_ingestion :: "string \<Rightarrow> status list \<Rightarrow> ingest_error \<Rightarrow> 'a VectorIndex
                              \<Rightarrow> 'a ingested" where
  "fail_ingestion d stages err idx =
     \<lparr>index = delete_document d idx, final = Failed, visited = stages @ [Failed],
      failure = Some err\<rparr>"

text \<open>
  Modelled from the spec: the backend's IngestionPipeline for one document, section
  4.4: "pending, extracting, chunking, embedding, indexing, processed, or failed from
  any state"; "Re-ingesting a document with the same identity first deletes prior
  fragments for that id, then proceeds". A batch of vectors that does not match the
  batch of fragments counts as the embedding provider rejecting the input.
\<close>

definition ingest :: "'a capabilities \<Rightarrow> string \<Rightarrow> string \<Rightarrow> 'a VectorIndex \<Rightarrow> 'a ingested" where
  "ingest c d bytes idx =
     (let idx0 = delete_document d idx in
      case cap_extract c bytes of
        Inl err \<Rightarrow> fail_ingestion d [Pending, Extracting] err idx0
      | Inr text \<Rightarrow>
          (case cap_chunk c text of
             Inl err \<Rightarrow> fail_ingestion d [Pending, Extracting, Chunking] err idx0
           | Inr frags \<Rightarrow>
               (case cap_embed c (map fr_text frags) of
                  Inl err \<Rightarrow> fail_ingestion d [Pending, Extracting, Chunking, Embedding] err idx0
                | Inr vecs \<Rightarrow>
                    if length vecs \<noteq> length frags
                    then fail_ingestion d [Pending, Extracting, Chunking, Embedding]
                           EmbeddingUnavailable idx0
                    else
                      (case index_all c
                              (map (\<lambda>(fr, v). \<lparr>e_doc = d, e_fragment = fr_index fr,
                                                 e_vector = v, e_text = fr_text fr\<rparr>)
                                   (zip frags vecs)) idx0 of
                         (idx1, Some err) \<Rightarrow>
                           fail_ingestion d [Pending, Extracting, Chunking, Embedding, Indexing]
                             err idx1
                       | (idx1, None) \<Rightarrow>
                           \<lparr>index = idx1, final = Processed,
                            visited = [Pending, Extracting, Chunking, Embedding, Indexing,
                                       Processed],
                            failure = None\<rparr>))))"

section \<open>Concrete surroundings\<close>

text \<open>
  The world of a freshly loaded page (the initial values of the \<open>useState\<close> cells, a new
  emitter, empty logs) and two small backends to run the functions on: \<open>offline\<close>
  rejects every call; \<open>online\<close> counts the calls it has answered, holds one
  processed and one unprocessed document, and answers every chat message. Three files
  to offer to the upload area: a text file of exactly the largest size, a PDF one byte
  larger, and a small executable. For the ingestion pipeline: capabilities whose store
  takes the first fragment of a document and refuses the others, and an index that
  holds an entry of another document and a stale entry of document \<open>d1\<close>. For the
  emitter: listeners are numbers, \<open>registered ls\<close> is the emitter with the listeners
  \<open>ls\<close> on the upload event, \<open>note_call\<close> makes a listener append its number to the
  world, and with \<open>first_throws\<close> listener 1 throws after doing so.
\<close>

definition initial :: "'b \<Rightarrow> 'b world" where
  "initial b =
     \<lparr>server = b, requests = [], toasts = [], console = [],
      documentEvents = new_EventEmitter, emitted = [], pending = [], ticks = 0,
      messages = [], currentSession = None, sessions = [], documents = [],
      uploadingFiles = [], kb_searchQuery = [], kb_searchResults = [], kb_documents = [],
      kb_isSearching = False, kb_isLoadingDocs = False, kb_stats = None,
      kb_selectedFileType = ''all'', ci_documents = [], ci_selectedDocs = []\<rparr>"

definition offline :: "unit env" where
  "offline =
     \<lparr>chat_sessions = (\<lambda>b. (Inl AxiosError, b)),
      chat_session_messages = (\<lambda>i b. (Inl AxiosError, b)),
      chat_message = (\<lambda>rq b. (Inl AxiosError, b)),
      documents_upload = (\<lambda>f b. (Inl AxiosError, b)),
      documents_list = (\<lambda>p b. (Inl AxiosError, b)),
      documents_delete = (\<lambda>i b. (Inl AxiosError, b)),
      knowledge_search = (\<lambda>rq b. (Inl AxiosError, b)),
      knowledge_statistics = (\<lambda>b. (Inl AxiosError, b)),
      uuidv4 = (\<lambda>n. ''uuid''),
      new_Date = (\<lambda>n. n),
      Date_now = (\<lambda>n. ''1700000000000'')\<rparr>"

definition report_pdf :: Document where
  "report_pdf = \<lparr>d_id = ''d1'', filename = ''report.pdf'', file_type = ''pdf'',
                  file_size = 2048, processed = True, created_at = 1\<rparr>"

definition scan_png :: Document where
  "scan_png = \<lparr>d_id = ''d2'', filename = ''scan.png'', file_type = ''png'',
                file_size = 4096, processed = False, created_at = 2\<rparr>"




definition flaky_store :: "int capabilities" where
  "flaky_store =
     \<lparr>cap_extract = (\<lambda>bytes. Inr bytes),
      cap_chunk = (\<lambda>t. Inr [\<lparr>fr_index = 0, fr_text = take 5 t, fr_span = (0, 5)\<rparr>,
                              \<lparr>fr_index = 1, fr_text = drop 3 t, fr_span = (3, length t)\<rparr>]),
      cap_embed = (\<lambda>ts. Inr (map (\<lambda>t. [int (length t), 1]) ts)),
      cap_writable = (\<lambda>e. e_fragment e = 0)\<rparr>"

definition two_documents :: "int VectorIndex" where
  "two_documents =
     \<lparr>dimension = 2,
      entries = [\<lparr>e_doc = ''other'', e_fragment = 0, e_vector = [1, 0], e_text = ''kept''\<rparr>,
                 \<lparr>e_doc = ''d1'', e_fragment = 0, e_vector = [0, 1], e_text = ''stale''\<rparr>]\<rparr>"

definition notes_txt :: File where
  "notes_txt = \<lparr>f_name = ''notes.txt'', f_type = ''text/plain'', f_size = 10485760\<rparr>"

definition big_pdf :: File where
  "big_pdf = \<lparr>f_name = ''big.pdf'', f_type = ''application/pdf'', f_size = 10485761\<rparr>"

definition setup_exe :: File where
  "setup_exe = \<lparr>f_name = ''setup.exe'', f_type = ''application/x-msdownload'', f_size = 1024\<rparr>"

definition online :: "nat env" where
  "online =
     \<lparr>chat_sessions = (\<lambda>b. (Inr [], Suc b)),
      chat_session_messages = (\<lambda>i b. (Inr [], Suc b)),
      chat_message = (\<lambda>rq b. (Inr \<lparr>response = ''hello'', resp_session_id = Some ''s1''\<rparr>, Suc b)),
      documents_upload = (\<lambda>f b. (Inr (), Suc b)),
      documents_list = (\<lambda>p b. (Inr [report_pdf, scan_png], Suc b)),
      documents_delete = (\<lambda>i b. (Inr (), Suc b)),
      knowledge_search = (\<lambda>rq b. (Inr [], Suc b)),
      knowledge_statistics =
        (\<lambda>b. (Inr \<lparr>total_chunks = 3, total_documents = 1, collection_name = ''documents'',
                      embedding_model = ''all-MiniLM-L6-v2''\<rparr>, Suc b)),
      uuidv4 = (\<lambda>n. ''uuid''),
      new_Date = (\<lambda>n. n),
      Date_now = (\<lambda>n. ''1700000000000'')\<rparr>"

section \<open>Properties of the event emitter\<close>


lemma forEach_no_throw:
  "(\<And>l w. l \<in> set ls \<Longrightarrow> snd (f l w) = None)
   \<Longrightarrow> fst (forEach f ls w) = ls \<and> snd (snd (forEach f ls w)) = None"
proof (induction ls arbitrary: w)
  case Nil
  show ?case by simp
next
  case (Cons l ls)
  obtain w' where fl: "f l w = (w', None)"
    using Cons.prems [of l w] by (cases "f l w") auto
  have "fst (forEach f ls w') = ls \<and> snd (snd (forEach f ls w')) = None"
    using Cons.IH [of w'] Cons.prems by simp
  then show ?case
    using fl by (simp add: split_beta)
qed

lemma events_get_plain:
  "event \<notin> set object_prototype_keys
   \<Longrightarrow> events_get em event = (case em event of Some ls \<Rightarrow> Array ls | None \<Rightarrow> Undefined)"
  by (simp add: events_get_def)

lemma on_plain:
  assumes "event \<notin> set object_prototype_keys"
  shows "on event l em = Inr (em(event \<mapsto> listeners em event @ [l]))"
  using assms by (cases "em event") (simp_all add: on_def events_get_def listeners_def)


lemma emit_plain:
  assumes "event \<notin> set object_prototype_keys"
  shows "emit call event args em w = forEach (\<lambda>l. call l args) (listeners em event) w"
  using assms by (cases "em event") (simp_all add: emit_def events_get_def listeners_def)






section \<open>Properties of ChatContext.sendMessage\<close>

lemma api_alt:
  "api endpoint rq w
     = (fst (endpoint (server w)),
        w\<lparr>server := snd (endpoint (server w)),
          requests := requests w @ [(rq, \<not> isl (fst (endpoint (server w))))],
          console := console w @ (if isl (fst (endpoint (server w))) then [''API Error:'']
                                  else [])\<rparr>)"
  by (cases "endpoint (server w)") (auto simp: api_def split: sum.splits)

lemma api_fields:
  "messages (snd (api endpoint rq w)) = messages w"
  "ticks (snd (api endpoint rq w)) = ticks w"
  "currentSession (snd (api endpoint rq w)) = currentSession w"
  by (simp_all add: api_def split: prod.splits sum.splits)

lemma api_result: "fst (api endpoint rq w) = fst (endpoint (server w))"
  by (simp add: api_def split: prod.splits sum.splits)

lemma api_requests:
  "requests (snd (api endpoint rq w)) = requests w @ [(rq, \<not> isl (fst (endpoint (server w))))]"
  by (simp add: api_def split: prod.splits sum.splits)

lemma fetchSessions_fields:
  "messages (fetchSessions env w) = messages w"
  "requests (fetchSessions env w)
     = requests w @ [(GET_chat_sessions, \<not> isl (fst (chat_sessions env (server w))))]"
  by (simp_all add: fetchSessions_def api_def split: prod.splits sum.splits)

lemma chat_requests_append: "chat_requests (xs @ ys) = chat_requests xs @ chat_requests ys"
  by (induction xs rule: chat_requests.induct) simp_all

lemma sendMessage_messages:
  "messages (fst (sendMessage env c sel w))
     = messages w
       @ \<lparr>m_id = uuidv4 env (ticks w), m_role = User, m_content = c,
           m_timestamp = new_Date env (ticks w)\<rparr>
       # (case fst (chat_message env (message_body c sel w) (server w)) of
            Inl err \<Rightarrow> []
          | Inr data \<Rightarrow> [\<lparr>m_id = uuidv4 env (Suc (ticks w)), m_role = Assistant,
                           m_content = response data,
                           m_timestamp = new_Date env (Suc (ticks w))\<rparr>])"
  by (simp add: sendMessage_def Let_def api_def fetchSessions_fields
      split: prod.splits sum.splits)

lemma sendMessage_thrown:
  "snd (sendMessage env c sel w)
     = (case fst (chat_message env (message_body c sel w) (server w)) of
          Inl err \<Rightarrow> Some err | Inr data \<Rightarrow> None)"
  by (simp add: sendMessage_def Let_def api_def split: prod.splits sum.splits)

lemma sendMessage_chat_requests:
  "chat_requests (requests (fst (sendMessage env c sel w)))
     = chat_requests (requests w) @ [message_body c sel w]"
  by (simp add: sendMessage_def Let_def api_def fetchSessions_fields chat_requests_append
      split: prod.splits sum.splits)

text \<open>
  C1 (as amended). For every call of \<open>sendMessage\<close>: if the backend rejects the chat
  request (for whatever reason: the generator is unavailable, the request timed out,
  the HTTP call failed), then \<open>sendMessage\<close> rejects with that error, no assistant
  message is appended, and the message list is the list before the call followed by
  the user message of this call: the user message, appended before the request is
  made, stays.
\<close>

theorem sendMessage_failure_keeps_user_message:
  assumes "fst (chat_message env (message_body c sel w) (server w)) = Inl err"
  shows "snd (sendMessage env c sel w) = Some err
       \<and> messages (fst (sendMessage env c sel w))
           = messages w @ [\<lparr>m_id = uuidv4 env (ticks w), m_role = User, m_content = c,
                              m_timestamp = new_Date env (ticks w)\<rparr>]
       \<and> filter (\<lambda>m. m_role m = Assistant) (messages (fst (sendMessage env c sel w)))
           = filter (\<lambda>m. m_role m = Assistant) (messages w)"
proof -
  have thrown: "snd (sendMessage env c sel w) = Some err"
    using assms by (simp add: sendMessage_thrown)
  have appended: "messages (fst (sendMessage env c sel w))
      = messages w @ [\<lparr>m_id = uuidv4 env (ticks w), m_role = User, m_content = c,
                         m_timestamp = new_Date env (ticks w)\<rparr>]"
    using assms by (simp add: sendMessage_messages)
  have "filter (\<lambda>m. m_role m = Assistant) (messages (fst (sendMessage env c sel w)))
      = filter (\<lambda>m. m_role m = Assistant) (messages w)"
    unfolding appended by simp
  with thrown appended show ?thesis by blast
qed

theorem sendMessage_failure_keeps_user_message_witness:
  "fst (chat_message offline (message_body ''hi'' (Some []) (initial ())) (server (initial ())))
     = Inl AxiosError
   \<and> snd (sendMessage offline ''hi'' (Some []) (initial ())) = Some AxiosError
   \<and> messages (fst (sendMessage offline ''hi'' (Some []) (initial ())))
       = [\<lparr>m_id = ''uuid'', m_role = User, m_content = ''hi'', m_timestamp = 0\<rparr>]"
proof -
  have rejected: "fst (chat_message offline (message_body ''hi'' (Some []) (initial ()))
                        (server (initial ()))) = Inl AxiosError"
    by (simp add: offline_def)
  show ?thesis
    using rejected sendMessage_failure_keeps_user_message [OF rejected]
    by (simp add: offline_def initial_def)
qed

text \<open>
  C1 as stated (the list after a failed call equals the list before it) fails: with
  the backend that rejects every call, a page whose message list is empty holds the
  user message after the failed \<open>sendMessage\<close>.
\<close>

theorem sendMessage_rollback_counterexample:
  "fst (chat_message offline (message_body ''hi'' (Some []) (initial ())) (server (initial ())))
     = Inl AxiosError
   \<and> snd (sendMessage offline ''hi'' (Some []) (initial ())) = Some AxiosError
   \<and> messages (initial ()) = []
   \<and> messages (fst (sendMessage offline ''hi'' (Some []) (initial ())))
       = [\<lparr>m_id = ''uuid'', m_role = User, m_content = ''hi'', m_timestamp = 0\<rparr>]
   \<and> messages (fst (sendMessage offline ''hi'' (Some []) (initial ()))) \<noteq> messages (initial ())"
  by (simp add: sendMessage_def message_body_def api_def offline_def initial_def Let_def)



text \<open>
  C9. Every call of \<open>sendMessage\<close> sends exactly one chat request, and in it
  \<open>use_knowledge_base\<close> is \<open>true\<close> if and only if \<open>selectedDocIds\<close> is given and not
  empty (it is \<open>false\<close> for an empty array and \<open>undefined\<close>, hence absent from the
  JSON body, when the argument is missing), and \<open>selected_documents\<close> is
  \<open>selectedDocIds\<close>, or the empty list when that is missing.
\<close>

theorem sendMessage_use_knowledge_base:
  "chat_requests (requests (fst (sendMessage env c sel w)))
     = chat_requests (requests w) @ [message_body c sel w]
   \<and> (use_knowledge_base (message_body c sel w) = Some True) = (\<exists>ids. sel = Some ids \<and> ids \<noteq> [])
   \<and> use_knowledge_base (message_body c sel w)
       = (case sel of None \<Rightarrow> None | Some ids \<Rightarrow> Some (ids \<noteq> []))
   \<and> selected_documents (message_body c sel w) = (case sel of None \<Rightarrow> [] | Some ids \<Rightarrow> ids)
   \<and> message (message_body c sel w) = c"
proof -
  have sent: "chat_requests (requests (fst (sendMessage env c sel w)))
                = chat_requests (requests w) @ [message_body c sel w]"
    by (rule sendMessage_chat_requests)
  have flag: "use_knowledge_base (message_body c sel w)
                = (case sel of None \<Rightarrow> None | Some ids \<Rightarrow> Some (ids \<noteq> []))"
    by (cases sel) (simp_all add: message_body_def)
  have iff: "(use_knowledge_base (message_body c sel w) = Some True)
                = (\<exists>ids. sel = Some ids \<and> ids \<noteq> [])"
    unfolding flag by (cases sel) simp_all
  have docs: "selected_documents (message_body c sel w)
                = (case sel of None \<Rightarrow> [] | Some ids \<Rightarrow> ids)"
    by (cases sel) (simp_all add: message_body_def)
  have msg: "message (message_body c sel w) = c"
    by (simp add: message_body_def)
  from sent flag iff docs msg show ?thesis by blast
qed

theorem sendMessage_use_knowledge_base_witness:
  "chat_requests (requests (fst (sendMessage online ''q'' (Some [''d1'']) (initial (0::nat)))))
     = [\<lparr>message = ''q'', session_id = None, use_knowledge_base = Some True,
         selected_documents = [''d1''], stream = False\<rparr>]
   \<and> chat_requests (requests (fst (sendMessage online ''q'' (Some []) (initial (0::nat)))))
     = [\<lparr>message = ''q'', session_id = None, use_knowledge_base = Some False,
         selected_documents = [], stream = False\<rparr>]
   \<and> chat_requests (requests (fst (sendMessage online ''q'' None (initial (0::nat)))))
     = [\<lparr>message = ''q'', session_id = None, use_knowledge_base = None,
         selected_documents = [], stream = False\<rparr>]"
  using sendMessage_use_knowledge_base [of online "''q''" "Some [''d1'']" "initial (0::nat)"]
        sendMessage_use_knowledge_base [of online "''q''" "Some []" "initial (0::nat)"]
        sendMessage_use_knowledge_base [of online "''q''" None "initial (0::nat)"]
  by (simp add: message_body_def initial_def)

section \<open>Properties of DocumentContext.deleteDocument\<close>

lemma api_keeps_documents:
  "documents (snd (api endpoint rq w)) = documents w"
  "ci_documents (snd (api endpoint rq w)) = ci_documents w"
  "kb_searchResults (snd (api endpoint rq w)) = kb_searchResults w"
  "toasts (snd (api endpoint rq w)) = toasts w"
  by (simp_all add: api_def split: prod.splits sum.splits)

lemma api_console:
  "console (snd (api endpoint rq w))
     = console w @ (if isl (fst (endpoint (server w))) then [''API Error:''] else [])"
  by (simp add: api_def split: prod.splits sum.splits)

lemma deleteDocument_Inr:
  assumes "fst (documents_delete env i (server w)) = Inr u"
  shows "snd (deleteDocument env i w) = None"
    and "documents (fst (deleteDocument env i w)) = filter (\<lambda>doc. d_id doc \<noteq> i) (documents w)"
  using assms by (simp_all add: deleteDocument_def api_alt)

lemma deleteDocument_Inl:
  assumes "fst (documents_delete env i (server w)) = Inl err"
  shows "snd (deleteDocument env i w) = Some err"
    and "documents (fst (deleteDocument env i w)) = documents w"
  using assms by (simp_all add: deleteDocument_def api_alt)

text \<open>
  C6. For every document id: when the delete request succeeds, \<open>deleteDocument\<close>
  resolves and the documents list is the previous list without the entries whose id
  is the deleted id: the remaining entries are exactly the previous entries with
  another id, unchanged and in their original order (a subsequence of the previous
  list in which every entry with another id occurs as often as before). When the
  request fails, \<open>deleteDocument\<close> rejects with the error and the list is unchanged.
\<close>

theorem deleteDocument_removes_exactly_the_id:
  "(\<forall>u. fst (documents_delete env i (server w)) = Inr u \<longrightarrow>
        snd (deleteDocument env i w) = None
      \<and> documents (fst (deleteDocument env i w)) = filter (\<lambda>doc. d_id doc \<noteq> i) (documents w)
      \<and> subseq (documents (fst (deleteDocument env i w))) (documents w)
      \<and> set (documents (fst (deleteDocument env i w))) = {doc \<in> set (documents w). d_id doc \<noteq> i}
      \<and> (\<forall>doc. d_id doc \<noteq> i \<longrightarrow>
             count_list (documents (fst (deleteDocument env i w))) doc
               = count_list (documents w) doc))
   \<and> (\<forall>err. fst (documents_delete env i (server w)) = Inl err \<longrightarrow>
        snd (deleteDocument env i w) = Some err
      \<and> documents (fst (deleteDocument env i w)) = documents w)"
proof -
  have counted: "d_id doc \<noteq> i \<Longrightarrow>
      count_list (filter (\<lambda>doc. d_id doc \<noteq> i) ds) doc = count_list ds doc" for doc ds
    by (induction ds) auto
  have ok: "snd (deleteDocument env i w) = None
      \<and> documents (fst (deleteDocument env i w)) = filter (\<lambda>doc. d_id doc \<noteq> i) (documents w)
      \<and> subseq (documents (fst (deleteDocument env i w))) (documents w)
      \<and> set (documents (fst (deleteDocument env i w))) = {doc \<in> set (documents w). d_id doc \<noteq> i}
      \<and> (\<forall>doc. d_id doc \<noteq> i \<longrightarrow>
             count_list (documents (fst (deleteDocument env i w))) doc
               = count_list (documents w) doc)"
    if "fst (documents_delete env i (server w)) = Inr u" for u
    using deleteDocument_Inr [OF that] by (simp add: counted)
  have failed: "snd (deleteDocument env i w) = Some err
      \<and> documents (fst (deleteDocument env i w)) = documents w"
    if "fst (documents_delete env i (server w)) = Inl err" for err
    using deleteDocument_Inl [OF that] by simp
  from ok failed show ?thesis by blast
qed

theorem deleteDocument_removes_exactly_the_id_witness:
  "fst (documents_delete online ''d1'' (server ((initial (0::nat))\<lparr>documents := [report_pdf, scan_png]\<rparr>)))
     = Inr ()
   \<and> documents (fst (deleteDocument online ''d1''
         ((initial (0::nat))\<lparr>documents := [report_pdf, scan_png]\<rparr>))) = [scan_png]
   \<and> fst (documents_delete offline ''d1'' (server ((initial ())\<lparr>documents := [report_pdf, scan_png]\<rparr>)))
     = Inl AxiosError
   \<and> snd (deleteDocument offline ''d1'' ((initial ())\<lparr>documents := [report_pdf, scan_png]\<rparr>))
     = Some AxiosError
   \<and> documents (fst (deleteDocument offline ''d1''
         ((initial ())\<lparr>documents := [report_pdf, scan_png]\<rparr>))) = [report_pdf, scan_png]"
proof -
  have answered: "fst (documents_delete online ''d1''
      (server ((initial (0::nat))\<lparr>documents := [report_pdf, scan_png]\<rparr>))) = Inr ()"
    by (simp add: online_def)
  have rejected: "fst (documents_delete offline ''d1''
      (server ((initial ())\<lparr>documents := [report_pdf, scan_png]\<rparr>))) = Inl AxiosError"
    by (simp add: offline_def)
  show ?thesis
    using answered rejected
      deleteDocument_removes_exactly_the_id [of online "''d1''"
        "(initial (0::nat))\<lparr>documents := [report_pdf, scan_png]\<rparr>"]
      deleteDocument_removes_exactly_the_id [of offline "''d1''"
        "(initial ())\<lparr>documents := [report_pdf, scan_png]\<rparr>"]
    by (simp add: report_pdf_def scan_png_def)
qed

section \<open>Properties of KnowledgeBase.handleSearch\<close>

lemma handleSearch_blank: "trim (kb_searchQuery w) = [] \<Longrightarrow> handleSearch env w = w"
  by (simp add: handleSearch_def)

lemma handleSearch_Inr:
  assumes "trim (kb_searchQuery w) \<noteq> []"
    and "fst (knowledge_search env (search_body w) (server w)) = Inr results"
  shows "kb_searchResults (handleSearch env w) = results"
    and "toasts (handleSearch env w)
           = toasts w @ (if results = [] then [Toast ''No results found. Try a different query.'']
                         else [])"
    and "console (handleSearch env w) = console w"
    and "kb_isSearching (handleSearch env w) = False"
  using assms by (simp_all add: handleSearch_def api_alt)

lemma handleSearch_Inl:
  assumes "trim (kb_searchQuery w) \<noteq> []"
    and "fst (knowledge_search env (search_body w) (server w)) = Inl err"
  shows "kb_searchResults (handleSearch env w) = kb_searchResults w"
    and "toasts (handleSearch env w) = toasts w @ [ToastError ''Search failed. Please try again.'']"
    and "console (handleSearch env w) = console w @ [''API Error:'', ''Search error:'']"
    and "kb_isSearching (handleSearch env w) = False"
  using assms by (simp_all add: handleSearch_def api_alt)

text \<open>
  C5. A search that finds nothing is a normal outcome. For every non-blank query:
  when the search request succeeds, \<open>handleSearch\<close> stores the results it got (the
  empty list when there are none), shows at most the neutral "No results found"
  toast, and logs nothing; the catch block (the "Search failed" error toast and the
  "Search error:" line on the console, the displayed results left as they were) runs
  exactly when the request itself fails. A blank query is not searched at all.
\<close>

theorem handleSearch_no_results_is_not_an_error:
  "(trim (kb_searchQuery w) = [] \<longrightarrow> handleSearch env w = w)
   \<and> (trim (kb_searchQuery w) \<noteq> [] \<longrightarrow>
        (fst (knowledge_search env (search_body w) (server w)) = Inr [] \<longrightarrow>
            kb_searchResults (handleSearch env w) = []
          \<and> toasts (handleSearch env w)
              = toasts w @ [Toast ''No results found. Try a different query.'']
          \<and> console (handleSearch env w) = console w)
      \<and> (\<forall>results. fst (knowledge_search env (search_body w) (server w)) = Inr results \<longrightarrow>
            kb_searchResults (handleSearch env w) = results
          \<and> toasts (handleSearch env w)
              = toasts w @ (if results = []
                            then [Toast ''No results found. Try a different query.''] else [])
          \<and> console (handleSearch env w) = console w)
      \<and> (\<forall>err. fst (knowledge_search env (search_body w) (server w)) = Inl err \<longrightarrow>
            kb_searchResults (handleSearch env w) = kb_searchResults w
          \<and> toasts (handleSearch env w)
              = toasts w @ [ToastError ''Search failed. Please try again.'']
          \<and> console (handleSearch env w) = console w @ [''API Error:'', ''Search error:''])
      \<and> (toasts (handleSearch env w) = toasts w @ [ToastError ''Search failed. Please try again.''])
          = isl (fst (knowledge_search env (search_body w) (server w))))"
proof -
  let ?r = "fst (knowledge_search env (search_body w) (server w))"
  have blank: "trim (kb_searchQuery w) = [] \<longrightarrow> handleSearch env w = w"
    by (simp add: handleSearch_blank)
  have rest: "(?r = Inr [] \<longrightarrow>
            kb_searchResults (handleSearch env w) = []
          \<and> toasts (handleSearch env w)
              = toasts w @ [Toast ''No results found. Try a different query.'']
          \<and> console (handleSearch env w) = console w)
      \<and> (\<forall>results. ?r = Inr results \<longrightarrow>
            kb_searchResults (handleSearch env w) = results
          \<and> toasts (handleSearch env w)
              = toasts w @ (if results = []
                            then [Toast ''No results found. Try a different query.''] else [])
          \<and> console (handleSearch env w) = console w)
      \<and> (\<forall>err. ?r = Inl err \<longrightarrow>
            kb_searchResults (handleSearch env w) = kb_searchResults w
          \<and> toasts (handleSearch env w)
              = toasts w @ [ToastError ''Search failed. Please try again.'']
          \<and> console (handleSearch env w) = console w @ [''API Error:'', ''Search error:''])
      \<and> (toasts (handleSearch env w) = toasts w @ [ToastError ''Search failed. Please try again.''])
          = isl ?r"
    if nonblank: "trim (kb_searchQuery w) \<noteq> []"
  proof (cases ?r)
    case (Inl err)
    show ?thesis
      using handleSearch_Inl [OF nonblank Inl] Inl by simp
  next
    case (Inr results)
    show ?thesis
      using handleSearch_Inr [OF nonblank Inr] Inr by simp
  qed
  from blank rest show ?thesis by blast
qed

theorem handleSearch_no_results_is_not_an_error_witness:
  "trim (kb_searchQuery ((initial (0::nat))\<lparr>kb_searchQuery := ''tax 2023''\<rparr>)) \<noteq> []
   \<and> fst (knowledge_search online (search_body ((initial (0::nat))\<lparr>kb_searchQuery := ''tax 2023''\<rparr>))
            (server ((initial (0::nat))\<lparr>kb_searchQuery := ''tax 2023''\<rparr>))) = Inr []
   \<and> kb_searchResults (handleSearch online ((initial (0::nat))\<lparr>kb_searchQuery := ''tax 2023''\<rparr>)) = []
   \<and> toasts (handleSearch online ((initial (0::nat))\<lparr>kb_searchQuery := ''tax 2023''\<rparr>))
       = [Toast ''No results found. Try a different query.'']
   \<and> console (handleSearch online ((initial (0::nat))\<lparr>kb_searchQuery := ''tax 2023''\<rparr>)) = []
   \<and> toasts (handleSearch offline ((initial ())\<lparr>kb_searchQuery := ''tax 2023''\<rparr>))
       = [ToastError ''Search failed. Please try again.'']
   \<and> handleSearch offline ((initial ())\<lparr>kb_searchQuery := ''  ''\<rparr>)
       = (initial ())\<lparr>kb_searchQuery := ''  ''\<rparr>"
proof -
  let ?w0 = "(initial (0::nat))\<lparr>kb_searchQuery := ''tax 2023''\<rparr>"
  let ?w1 = "(initial ())\<lparr>kb_searchQuery := ''tax 2023''\<rparr>"
  let ?w2 = "(initial ())\<lparr>kb_searchQuery := ''  ''\<rparr>"
  have nonblank0: "trim (kb_searchQuery ?w0) \<noteq> []"
    by (simp add: trim_def is_space_def)
  have nonblank1: "trim (kb_searchQuery ?w1) \<noteq> []"
    by (simp add: trim_def is_space_def)
  have blank: "trim (kb_searchQuery ?w2) = []"
    by (simp add: trim_def is_space_def)
  have found_nothing: "fst (knowledge_search online (search_body ?w0) (server ?w0)) = Inr []"
    by (simp add: online_def)
  have rejected: "fst (knowledge_search offline (search_body ?w1) (server ?w1)) = Inl AxiosError"
    by (simp add: offline_def)
  have quiet: "toasts ?w0 = [] \<and> console ?w0 = [] \<and> toasts ?w1 = []"
    by (simp add: initial_def)
  have r0: "kb_searchResults (handleSearch online ?w0) = []
          \<and> toasts (handleSearch online ?w0)
              = toasts ?w0 @ [Toast ''No results found. Try a different query.'']
          \<and> console (handleSearch online ?w0) = console ?w0"
    using handleSearch_no_results_is_not_an_error [of ?w0 online] nonblank0 found_nothing
    by blast
  have r1: "toasts (handleSearch offline ?w1)
              = toasts ?w1 @ [ToastError ''Search failed. Please try again.'']"
    using handleSearch_no_results_is_not_an_error [of ?w1 offline] nonblank1 rejected
    by blast
  have r2: "handleSearch offline ?w2 = ?w2"
    using handleSearch_no_results_is_not_an_error [of ?w2 offline] blank
    by blast
  have t0: "toasts (handleSearch online ?w0) = [Toast ''No results found. Try a different query.'']"
    using r0 quiet by simp
  have c0: "console (handleSearch online ?w0) = []"
    using r0 quiet by simp
  have t1: "toasts (handleSearch offline ?w1) = [ToastError ''Search failed. Please try again.'']"
    using r1 quiet by simp
  from r0 have k0: "kb_searchResults (handleSearch online ?w0) = []"
    by (rule conjunct1)
  show ?thesis
    using nonblank0 found_nothing k0 t0 c0 t1 r2 by (intro conjI) assumption+
qed

section \<open>Properties of the chat interface's document list\<close>

lemma api_pending: "pending (snd (api endpoint rq w)) = pending w"
  by (simp add: api_alt)

lemma ChatInterface_fetchDocuments_fields:
  "pending (ChatInterface_fetchDocuments env w)
     = pending w @ [ChatInterface_fetchDocuments_resume (fst (documents_list env (Some (0, 100)) (server w)))]"
  "ci_documents (ChatInterface_fetchDocuments env w) = ci_documents w"
  "requests (ChatInterface_fetchDocuments env w)
     = requests w @ [(GET_documents_list (Some (0, 100)),
                      \<not> isl (fst (documents_list env (Some (0, 100)) (server w))))]"
  by (simp_all add: ChatInterface_fetchDocuments_def api_alt)

lemma loadSessionMessages_ci_documents:
  "ci_documents (loadSessionMessages env i w) = ci_documents w"
  by (simp add: loadSessionMessages_def api_alt)

lemma run_task_ci_documents:
  "ci_documents (run_task env t w)
     = (case t of
          ChatInterface_fetchDocuments_resume (Inr docs) \<Rightarrow> filter (\<lambda>doc. processed doc) docs
        | _ \<Rightarrow> ci_documents w)"
  by (cases t)
     (simp_all add: fetchSessions_then_def loadSessionMessages_then_def refreshDocuments_then_def
        KnowledgeBase_fetchStats_then_def KnowledgeBase_fetchDocuments_then_def
        ChatInterface_fetchDocuments_then_def loadSessionMessages_ci_documents
        split: sum.splits list.splits)

text \<open>
  C10. The chat interface's document list holds processed documents only.
  \<open>fetchDocuments\<close> asks for the list and, when the answer arrives, stores exactly the
  documents of the answer whose \<open>processed\<close> flag is true, in the answer's order (a
  failed request leaves the list as it was). No continuation ever stores an
  unprocessed document in the list, and the list of a fresh page is empty; so the
  ids offered by the selection dropdown are ids of processed documents of the answer.
\<close>

theorem ChatInterface_documents_are_processed:
  "pending (ChatInterface_fetchDocuments env w)
     = pending w @ [ChatInterface_fetchDocuments_resume (fst (documents_list env (Some (0, 100)) (server w)))]
   \<and> ci_documents (ChatInterface_fetchDocuments env w) = ci_documents w
   \<and> ci_documents (run_task env (ChatInterface_fetchDocuments_resume (Inr docs)) w)
       = filter (\<lambda>doc. processed doc) docs
   \<and> (\<forall>doc \<in> set (ci_documents (run_task env (ChatInterface_fetchDocuments_resume (Inr docs)) w)).
         processed doc \<and> doc \<in> set docs)
   \<and> set (offered (run_task env (ChatInterface_fetchDocuments_resume (Inr docs)) w))
       = d_id ` {doc \<in> set docs. processed doc}
   \<and> ci_documents (run_task env (ChatInterface_fetchDocuments_resume (Inl err)) w) = ci_documents w
   \<and> ci_documents (initial b) = []
   \<and> ((\<forall>doc \<in> set (ci_documents w). processed doc)
        \<longrightarrow> (\<forall>doc \<in> set (ci_documents (run_task env t w)). processed doc))"
proof -
  have stored: "ci_documents (run_task env (ChatInterface_fetchDocuments_resume (Inr docs)) w)
                  = filter (\<lambda>doc. processed doc) docs"
    by (simp add: ChatInterface_fetchDocuments_then_def)
  have all_processed:
    "\<forall>doc \<in> set (ci_documents (run_task env (ChatInterface_fetchDocuments_resume (Inr docs)) w)).
       processed doc \<and> doc \<in> set docs"
    unfolding stored by simp
  have ids: "set (offered (run_task env (ChatInterface_fetchDocuments_resume (Inr docs)) w))
               = d_id ` {doc \<in> set docs. processed doc}"
    unfolding offered_def stored by simp
  have kept: "ci_documents (run_task env (ChatInterface_fetchDocuments_resume (Inl err)) w)
                = ci_documents w"
    by (simp add: ChatInterface_fetchDocuments_then_def)
  have fresh: "ci_documents (initial b) = []"
    by (simp add: initial_def)
  have inv: "(\<forall>doc \<in> set (ci_documents w). processed doc)
               \<longrightarrow> (\<forall>doc \<in> set (ci_documents (run_task env t w)). processed doc)"
    unfolding run_task_ci_documents by (auto split: task.splits sum.splits)
  from ChatInterface_fetchDocuments_fields(1,2) stored all_processed ids kept fresh inv
  show ?thesis by blast
qed

theorem ChatInterface_documents_are_processed_witness:
  "pending (ChatInterface_fetchDocuments online (initial (0::nat)))
     = [ChatInterface_fetchDocuments_resume (Inr [report_pdf, scan_png])]
   \<and> ci_documents (run_next online (ChatInterface_fetchDocuments online (initial (0::nat)))) = [report_pdf]
   \<and> offered (run_next online (ChatInterface_fetchDocuments online (initial (0::nat)))) = [''d1'']
   \<and> processed report_pdf
   \<and> \<not> processed scan_png"
proof -
  let ?w1 = "snd (api (documents_list online (Some (0, 100))) (GET_documents_list (Some (0, 100)))
                   (initial (0::nat)))\<lparr>pending := []\<rparr>"
  have listed: "fst (documents_list online (Some (0, 100)) (server (initial (0::nat))))
                  = Inr [report_pdf, scan_png]"
    by (simp add: online_def initial_def)
  have queued: "pending (ChatInterface_fetchDocuments online (initial (0::nat)))
                  = [ChatInterface_fetchDocuments_resume (Inr [report_pdf, scan_png])]"
    using ChatInterface_documents_are_processed [where env = online and w = "initial (0::nat)"] listed
    by (simp add: initial_def)
  have flags: "processed report_pdf \<and> \<not> processed scan_png"
    by (simp add: report_pdf_def scan_png_def)
  have next_is: "run_next online (ChatInterface_fetchDocuments online (initial (0::nat)))
      = run_task online (ChatInterface_fetchDocuments_resume (Inr [report_pdf, scan_png])) ?w1"
    using listed
    by (simp add: run_next_def ChatInterface_fetchDocuments_def api_alt initial_def)
  have "ci_documents (run_task online (ChatInterface_fetchDocuments_resume (Inr [report_pdf, scan_png])) ?w1)
          = filter (\<lambda>doc. processed doc) [report_pdf, scan_png]"
    by (rule ChatInterface_documents_are_processed [where env = online and w = ?w1
          and docs = "[report_pdf, scan_png]", THEN conjunct2, THEN conjunct2, THEN conjunct1])
  then have stored: "ci_documents (run_next online (ChatInterface_fetchDocuments online (initial (0::nat))))
                  = [report_pdf]"
    unfolding next_is using flags by simp
  have ids: "offered (run_next online (ChatInterface_fetchDocuments online (initial (0::nat)))) = [''d1'']"
    unfolding offered_def stored by (simp add: report_pdf_def)
  from queued stored ids flags show ?thesis by blast
qed

section \<open>Properties of the upload area and of the document events\<close>

lemma uploads_append: "uploads (xs @ ys) = uploads xs @ uploads ys"
  by (induction xs rule: uploads.induct) simp_all

lemma forEach_preserves:
  assumes "\<And>l w. g (fst (f l w)) = g w"
  shows "g (fst (snd (forEach f ls w))) = g w"
proof (induction ls arbitrary: w)
  case Nil
  show ?case by simp
next
  case (Cons l ls)
  show ?case
  proof (cases "f l w")
    case (Pair w' r)
    have "g w' = g w" using assms [of l w] Pair by simp
    then show ?thesis
      using Pair Cons.IH [of w'] by (cases r) (simp_all add: split_beta)
  qed
qed

lemma run_listener_keeps:
  "emitted (fst (run_listener env l a w)) = emitted w"
  "uploads (requests (fst (run_listener env l a w))) = uploads (requests w)"
  "snd (run_listener env l a w) = None"
  "documentEvents (fst (run_listener env l a w)) = documentEvents w"
  by (cases l; simp add: KnowledgeBase_fetchStats_def KnowledgeBase_fetchDocuments_def
        ChatInterface_fetchDocuments_def api_alt uploads_append Let_def)+

lemma emit_preserves:
  assumes "\<And>l w. g (fst (call l args w)) = g w"
  shows "g (fst (snd (emit call event args em w))) = g w"
  using forEach_preserves [of g "\<lambda>l. call l args", OF assms]
  by (simp add: emit_def split: slot.splits)

lemma documentEvents_emit_fields:
  "emitted (fst (documentEvents_emit env e w)) = emitted w @ [e]"
  "uploads (requests (fst (documentEvents_emit env e w))) = uploads (requests w)"
  using emit_preserves [of emitted "run_listener env"  "()" e "documentEvents w" "w\<lparr>emitted := emitted w @ [e]\<rparr>"]
    emit_preserves [of "\<lambda>w. uploads (requests w)" "run_listener env"  "()" e "documentEvents w" "w\<lparr>emitted := emitted w @ [e]\<rparr>"]
  by (simp_all add: documentEvents_emit_def run_listener_keeps)

lemma uploadDocument_fields:
  "emitted (fst (uploadDocument env f w)) = emitted w"
  "uploads (requests (fst (uploadDocument env f w)))
     = uploads (requests w) @ [(f, \<not> isl (fst (documents_upload env f (server w))))]"
  "(snd (uploadDocument env f w) = None) = (\<not> isl (fst (documents_upload env f (server w))))"
  by (cases "fst (documents_upload env f (server w))";
      simp add: uploadDocument_def refreshDocuments_await_def refreshDocuments_then_def api_alt
        uploads_append split: sum.splits)+

lemma onDrop_try_trace:
  "uploads (requests (onDrop_try env f w))
     = uploads (requests w) @ [(f, \<not> isl (fst (documents_upload env f (server w))))]"
  "emitted (onDrop_try env f w)
     = emitted w @ (if isl (fst (documents_upload env f (server w))) then [] else [UPLOADED])"
proof -
  obtain wu ru where U: "uploadDocument env f w = (wu, ru)"
    by (cases "uploadDocument env f w")
  obtain we re where E: "documentEvents_emit env UPLOADED
      (wu\<lparr>toasts := toasts wu @ [ToastSuccess (f_name f @ '' uploaded successfully'')]\<rparr>) = (we, re)"
    by (cases "documentEvents_emit env UPLOADED
      (wu\<lparr>toasts := toasts wu @ [ToastSuccess (f_name f @ '' uploaded successfully'')]\<rparr>)")
  have up: "emitted wu = emitted w"
    "uploads (requests wu) = uploads (requests w) @ [(f, \<not> isl (fst (documents_upload env f (server w))))]"
    "(ru = None) = (\<not> isl (fst (documents_upload env f (server w))))"
    using uploadDocument_fields [of env f w] by (simp_all add: U)
  have em: "emitted we = emitted wu @ [UPLOADED]" "uploads (requests we) = uploads (requests wu)"
    using documentEvents_emit_fields [of env UPLOADED
        "wu\<lparr>toasts := toasts wu @ [ToastSuccess (f_name f @ '' uploaded successfully'')]\<rparr>"]
    by (simp_all add: E)
  have body: "onDrop_try env f w
      = (case ru of Some err \<Rightarrow> onDrop_catch f wu
         | None \<Rightarrow> (case re of Some err \<Rightarrow> onDrop_catch f we | None \<Rightarrow> we))"
    unfolding onDrop_try_def U by (cases ru) (simp_all add: E)
  show "uploads (requests (onDrop_try env f w))
     = uploads (requests w) @ [(f, \<not> isl (fst (documents_upload env f (server w))))]"
    unfolding body using up em by (cases ru; cases re) (simp_all add: onDrop_catch_def)
  show "emitted (onDrop_try env f w)
     = emitted w @ (if isl (fst (documents_upload env f (server w))) then [] else [UPLOADED])"
    unfolding body using up em by (cases ru; cases re) (simp_all add: onDrop_catch_def)
qed

lemma onDrop_file_trace:
  "uploads (requests (onDrop_file env f w))
     = uploads (requests w) @ [(f, \<not> isl (fst (documents_upload env f (server w))))]"
  "emitted (onDrop_file env f w)
     = emitted w @ (if isl (fst (documents_upload env f (server w))) then [] else [UPLOADED])"
  by (simp_all add: onDrop_file_def Let_def uploadingFiles_delete_def onDrop_try_trace
      uploadingFiles_add_def)

lemma onDrop_loop_trace:
  "\<exists>new. uploads (requests (onDrop_loop env fs w)) = uploads (requests w) @ new
        \<and> map fst new = fs
        \<and> emitted (onDrop_loop env fs w) = emitted w @ map (\<lambda>x. UPLOADED) (filter snd new)"
proof (induction fs arbitrary: w)
  case Nil
  show ?case by simp
next
  case (Cons f fs)
  obtain new where new: "uploads (requests (onDrop_loop env fs (onDrop_file env f w)))
         = uploads (requests (onDrop_file env f w)) @ new"
      "map fst new = fs"
      "emitted (onDrop_loop env fs (onDrop_file env f w))
         = emitted (onDrop_file env f w) @ map (\<lambda>x. UPLOADED) (filter snd new)"
    using Cons.IH [of "onDrop_file env f w"] by blast
  let ?one = "(f, \<not> isl (fst (documents_upload env f (server w))))"
  have a: "uploads (requests (onDrop_loop env (f # fs) w)) = uploads (requests w) @ (?one # new)"
    using new(1) by (simp add: onDrop_file_trace)
  have b: "map fst (?one # new) = f # fs"
    using new(2) by simp
  have c: "emitted (onDrop_loop env (f # fs) w)
      = emitted w @ map (\<lambda>x. UPLOADED) (filter snd (?one # new))"
    using new(3) by (simp add: onDrop_file_trace)
  show ?case
  proof (intro exI conjI)
    show "uploads (requests (onDrop_loop env (f # fs) w)) = uploads (requests w) @ (?one # new)"
      by (rule a)
    show "map fst (?one # new) = f # fs"
      by (rule b)
    show "emitted (onDrop_loop env (f # fs) w)
      = emitted w @ map (\<lambda>x. UPLOADED) (filter snd (?one # new))"
      by (rule c)
  qed
qed

lemma refreshDocuments_fields:
  "uploads (requests (refreshDocuments env w)) = uploads (requests w)"
  "emitted (refreshDocuments env w) = emitted w"
  by (simp_all add: refreshDocuments_def api_alt uploads_append)

lemma onDrop_trace:
  "\<exists>new. uploads (requests (onDrop env fs w)) = uploads (requests w) @ new
        \<and> map fst new = fs
        \<and> emitted (onDrop env fs w) = emitted w @ map (\<lambda>x. UPLOADED) (filter snd new)"
  unfolding onDrop_def refreshDocuments_fields by (rule onDrop_loop_trace)

lemma type_accepted_iff:
  "type_accepted file
     = (f_type file \<in> {''application/pdf'',
                        ''application/vnd.openxmlformats-officedocument.wordprocessingml.document'',
                        ''text/plain'', ''text/markdown'', ''image/jpeg'', ''image/png''}
        \<or> (\<exists>ext \<in> {''.pdf'', ''.docx'', ''.txt'', ''.md'', ''.jpg'', ''.jpeg'', ''.png''}.
              suffix ext (f_name file)))"
  unfolding type_accepted_def accept_def by (simp add: list_ex_iff) blast

lemma useDropzone_drop_uploads:
  "map fst (uploads (requests (useDropzone_drop env files w)))
     = map fst (uploads (requests w)) @ filter useDropzone_accepts files"
proof -
  obtain new where "uploads (requests (onDrop env (filter useDropzone_accepts files) w))
        = uploads (requests w) @ new" and "map fst new = filter useDropzone_accepts files"
    using onDrop_trace [of env "filter useDropzone_accepts files" w] by blast
  then show ?thesis by (simp add: useDropzone_drop_def)
qed

text \<open>
  C3. Of the files offered to the upload area, upload requests go out for exactly
  those that pass the check, in the order offered, and for no others. A file larger
  than 10485760 bytes, or whose type is not one of PDF, DOCX, plain text, Markdown,
  JPEG or PNG (by MIME type or by file name extension, as the \<open>accept\<close> option lists
  them), does not pass, so no request is sent for it; a file of an accepted type
  with at most 10485760 bytes passes, and its upload is requested.
\<close>

theorem useDropzone_rejects_before_upload:
  "map fst (uploads (requests (useDropzone_drop env files w)))
     = map fst (uploads (requests w)) @ filter useDropzone_accepts files
   \<and> (\<forall>file. f_size file > 10485760 \<or> \<not> type_accepted file
         \<longrightarrow> \<not> useDropzone_accepts file \<and> file \<notin> set (filter useDropzone_accepts files))
   \<and> (\<forall>file. type_accepted file \<and> f_size file \<le> 10485760 \<longrightarrow> useDropzone_accepts file)
   \<and> (\<forall>file \<in> set files. type_accepted file \<and> f_size file \<le> 10485760
         \<longrightarrow> file \<in> set (filter useDropzone_accepts files))
   \<and> (\<forall>file. type_accepted file
         = (f_type file \<in> {''application/pdf'',
                            ''application/vnd.openxmlformats-officedocument.wordprocessingml.document'',
                            ''text/plain'', ''text/markdown'', ''image/jpeg'', ''image/png''}
            \<or> (\<exists>ext \<in> {''.pdf'', ''.docx'', ''.txt'', ''.md'', ''.jpg'', ''.jpeg'', ''.png''}.
                  suffix ext (f_name file))))"
proof -
  have rej: "\<forall>file. f_size file > 10485760 \<or> \<not> type_accepted file
         \<longrightarrow> \<not> useDropzone_accepts file \<and> file \<notin> set (filter useDropzone_accepts files)"
    by (auto simp: useDropzone_accepts_def maxSize_def)
  have acc: "\<forall>file. type_accepted file \<and> f_size file \<le> 10485760 \<longrightarrow> useDropzone_accepts file"
    by (simp add: useDropzone_accepts_def maxSize_def)
  have sent: "\<forall>file \<in> set files. type_accepted file \<and> f_size file \<le> 10485760
         \<longrightarrow> file \<in> set (filter useDropzone_accepts files)"
    by (simp add: useDropzone_accepts_def maxSize_def)
  from useDropzone_drop_uploads rej acc sent type_accepted_iff show ?thesis by blast
qed

theorem useDropzone_rejects_before_upload_witness:
  "map fst (uploads (requests (useDropzone_drop online [notes_txt, big_pdf, setup_exe]
                                 (initial (0::nat))))) = [notes_txt]
   \<and> type_accepted notes_txt \<and> f_size notes_txt = 10485760
   \<and> type_accepted big_pdf \<and> f_size big_pdf = 10485761
   \<and> \<not> type_accepted setup_exe \<and> f_size setup_exe = 1024"
proof -
  have passed: "filter useDropzone_accepts [notes_txt, big_pdf, setup_exe] = [notes_txt]"
    by (simp add: useDropzone_accepts_def type_accepted_def accept_def maxSize_def notes_txt_def
        big_pdf_def setup_exe_def suffix_to_prefix)
  have "map fst (uploads (requests (useDropzone_drop online [notes_txt, big_pdf, setup_exe]
                                      (initial (0::nat)))))
          = map fst (uploads (requests (initial (0::nat))))
            @ filter useDropzone_accepts [notes_txt, big_pdf, setup_exe]"
    by (rule useDropzone_rejects_before_upload [THEN conjunct1])
  then have sent: "map fst (uploads (requests (useDropzone_drop online
      [notes_txt, big_pdf, setup_exe] (initial (0::nat))))) = [notes_txt]"
    unfolding passed by (simp add: initial_def)
  have types: "type_accepted notes_txt \<and> f_size notes_txt = 10485760
             \<and> type_accepted big_pdf \<and> f_size big_pdf = 10485761
             \<and> \<not> type_accepted setup_exe \<and> f_size setup_exe = 1024"
    by (simp add: type_accepted_def accept_def notes_txt_def big_pdf_def setup_exe_def
        suffix_to_prefix)
  from sent types show ?thesis by (rule conjI)
qed

lemma deleteDocument_fields:
  "emitted (fst (deleteDocument env i w)) = emitted w"
  "(snd (deleteDocument env i w) = None) = (\<not> isl (fst (documents_delete env i (server w))))"
  by (cases "fst (documents_delete env i (server w))"; simp add: deleteDocument_def api_alt)+

lemma handleDelete_emitted:
  "emitted (handleDelete env answer i w)
     = emitted w @ (if answer \<and> \<not> isl (fst (documents_delete env i (server w))) then [DELETED]
                    else [])"
proof (cases answer)
  case False
  then show ?thesis by (simp add: handleDelete_def)
next
  case True
  obtain wd rd where D: "deleteDocument env i w = (wd, rd)"
    by (cases "deleteDocument env i w")
  let ?w1 = "refreshDocuments env
     (wd\<lparr>toasts := toasts wd @ [ToastSuccess ''Document deleted successfully'']\<rparr>)"
  obtain we re where E: "documentEvents_emit env DELETED ?w1 = (we, re)"
    by (cases "documentEvents_emit env DELETED ?w1")
  have del: "emitted wd = emitted w"
    "(rd = None) = (\<not> isl (fst (documents_delete env i (server w))))"
    using deleteDocument_fields [of env i w] by (simp_all add: D)
  have em: "emitted we = emitted wd @ [DELETED]"
    using documentEvents_emit_fields(1) [of env DELETED ?w1]
    by (simp add: E refreshDocuments_fields)
  have body: "handleDelete env answer i w
      = (case rd of Some err \<Rightarrow> delete_catch wd
         | None \<Rightarrow> (case re of Some err \<Rightarrow> delete_catch we | None \<Rightarrow> we))"
    unfolding handleDelete_def D using True by (cases rd) (simp_all add: E)
  show ?thesis
    unfolding body using del em True by (cases rd; cases re) (simp_all add: delete_catch_def)
qed

lemma KnowledgeBase_fetch_fields:
  "emitted (KnowledgeBase_fetchDocuments env w) = emitted w"
  "emitted (KnowledgeBase_fetchStats env w) = emitted w"
  "map fst (requests (KnowledgeBase_fetchDocuments env w))
     = map fst (requests w) @ [GET_documents_list (Some (0, 100))]"
  "map fst (requests (KnowledgeBase_fetchStats env w))
     = map fst (requests w) @ [GET_knowledge_statistics]"
  "documentEvents (KnowledgeBase_fetchDocuments env w) = documentEvents w"
  "documentEvents (KnowledgeBase_fetchStats env w) = documentEvents w"
  by (simp_all add: KnowledgeBase_fetchDocuments_def KnowledgeBase_fetchStats_def api_alt)

lemma KnowledgeBase_deleteDocument_emitted:
  "emitted (KnowledgeBase_deleteDocument env answer i w)
     = emitted w @ (if answer \<and> \<not> isl (fst (documents_delete env i (server w))) then [DELETED]
                    else [])"
proof (cases answer)
  case False
  then show ?thesis by (simp add: KnowledgeBase_deleteDocument_def)
next
  case True
  let ?wd = "snd (api (documents_delete env i) (DELETE_documents i) w)"
  let ?w1 = "KnowledgeBase_fetchStats env (KnowledgeBase_fetchDocuments env
     (?wd\<lparr>toasts := toasts ?wd @ [ToastSuccess ''Document deleted successfully'']\<rparr>))"
  obtain we re where E: "documentEvents_emit env DELETED ?w1 = (we, re)"
    by (cases "documentEvents_emit env DELETED ?w1")
  have wd: "emitted ?wd = emitted w"
    by (simp add: api_alt)
  have em: "emitted we = emitted w @ [DELETED]"
    using documentEvents_emit_fields(1) [of env DELETED ?w1]
    by (simp add: E KnowledgeBase_fetch_fields wd)
  have body: "KnowledgeBase_deleteDocument env answer i w
      = (if isl (fst (documents_delete env i (server w))) then delete_catch ?wd
         else (case re of Some err \<Rightarrow> delete_catch we | None \<Rightarrow> we))"
    using True E
    by (cases "fst (documents_delete env i (server w))")
       (simp_all add: KnowledgeBase_deleteDocument_def api_alt)
  show ?thesis
    unfolding body using wd em True by (cases re) (simp_all add: delete_catch_def)
qed

lemma run_listener_requests:
  "map fst (requests (fst (run_listener env l a w))) = map fst (requests w) @ listener_requests l"
  by (cases l)
     (simp_all add: KnowledgeBase_fetch_fields ChatInterface_fetchDocuments_fields Let_def)

lemma forEach_listener_requests:
  "map fst (requests (fst (snd (forEach (\<lambda>l. run_listener env l a) ls w))))
     = map fst (requests w) @ concat (map listener_requests ls)"
proof (induction ls arbitrary: w)
  case Nil
  show ?case by simp
next
  case (Cons l ls)
  obtain w' where step: "run_listener env l a w = (w', None)"
    using run_listener_keeps(3) [of env l a w] by (cases "run_listener env l a w") simp
  have "map fst (requests w') = map fst (requests w) @ listener_requests l"
    using run_listener_requests [of env l a w] step by simp
  then show ?case
    using Cons.IH [of w'] step by (simp add: split_beta)
qed

lemma emit_listeners:
  assumes "event \<notin> set object_prototype_keys"
  shows "fst (emit (run_listener env) event () em w) = listeners em event"
    and "snd (snd (emit (run_listener env) event () em w)) = None"
    and "map fst (requests (fst (snd (emit (run_listener env) event () em w))))
           = map fst (requests w) @ concat (map listener_requests (listeners em event))"
  using forEach_no_throw [of "listeners em event" "\<lambda>l. run_listener env l ()" w]
  by (simp_all add: emit_plain [OF assms] run_listener_keeps forEach_listener_requests)

lemma document_events_plain:
  "UPLOADED \<notin> set object_prototype_keys" "DELETED \<notin> set object_prototype_keys"
  by (simp_all add: UPLOADED_def DELETED_def object_prototype_keys_def)

lemma document_events_distinct: "UPLOADED \<noteq> DELETED" "DELETED \<noteq> UPLOADED"
  by (simp_all add: UPLOADED_def DELETED_def)

lemma KnowledgeBase_mount_listeners:
  "snd (KnowledgeBase_mount env w) = None"
  "listeners (documentEvents (fst (KnowledgeBase_mount env w))) UPLOADED
     = listeners (documentEvents w) UPLOADED @ [KnowledgeBase_handleDocumentChange]"
  "listeners (documentEvents (fst (KnowledgeBase_mount env w))) DELETED
     = listeners (documentEvents w) DELETED @ [KnowledgeBase_handleDocumentChange]"
  by (simp_all add: KnowledgeBase_mount_def on_plain [OF document_events_plain(1)]
      on_plain [OF document_events_plain(2)] Let_def KnowledgeBase_fetch_fields listeners_def
      document_events_distinct)

lemma handler_pending:
  "pending (fst (run_listener env KnowledgeBase_handleDocumentChange a w))
     = pending w
       @ [KnowledgeBase_fetchDocuments_resume (fst (documents_list env (Some (0, 100)) (server w))),
          KnowledgeBase_fetchStats_resume
            (fst (knowledge_statistics env (snd (documents_list env (Some (0, 100)) (server w)))))]"
  by (simp add: KnowledgeBase_fetchDocuments_def KnowledgeBase_fetchStats_def api_alt)


text \<open>
  C7. Document changes are signalled through the module-level emitter
  \<open>documentEvents\<close>. \<open>onDrop\<close> emits \<open>DOCUMENT_EVENTS.UPLOADED\<close> once for every upload
  that succeeded and for no other (it requests an upload for each accepted file, in
  order); \<open>handleDelete\<close> of the upload view and \<open>deleteDocument\<close> of the
  knowledge-base view emit \<open>DOCUMENT_EVENTS.DELETED\<close> exactly when the user confirmed
  and the delete request succeeded. Emitting either event calls every registered
  listener once, in registration order, and none throws. The knowledge-base view
  registers its handler for both events when it mounts, and each call of the handler
  requests the document list and the statistics again; the answers, when they
  arrive, replace the view's documents and statistics.
\<close>

theorem document_change_notifications:
  "(\<exists>new. uploads (requests (onDrop env files w)) = uploads (requests w) @ new
         \<and> map fst new = files
         \<and> emitted (onDrop env files w) = emitted w @ map (\<lambda>x. UPLOADED) (filter snd new))
   \<and> emitted (onDrop env [file] w)
       = emitted w @ (if isl (fst (documents_upload env file (server w))) then [] else [UPLOADED])
   \<and> emitted (handleDelete env answer i w)
       = emitted w @ (if answer \<and> \<not> isl (fst (documents_delete env i (server w)))
                      then [DELETED] else [])
   \<and> emitted (KnowledgeBase_deleteDocument env answer i w)
       = emitted w @ (if answer \<and> \<not> isl (fst (documents_delete env i (server w)))
                      then [DELETED] else [])
   \<and> (event = UPLOADED \<or> event = DELETED \<longrightarrow>
         fst (emit (run_listener env) event () (documentEvents w) (w\<lparr>emitted := emitted w @ [event]\<rparr>))
           = listeners (documentEvents w) event
       \<and> snd (documentEvents_emit env event w) = None
       \<and> map fst (requests (fst (documentEvents_emit env event w)))
           = map fst (requests w) @ concat (map listener_requests (listeners (documentEvents w) event)))
   \<and> map fst (requests (fst (run_listener env KnowledgeBase_handleDocumentChange () w)))
       = map fst (requests w) @ [GET_documents_list (Some (0, 100)), GET_knowledge_statistics]
   \<and> pending (fst (run_listener env KnowledgeBase_handleDocumentChange () w))
       = pending w
         @ [KnowledgeBase_fetchDocuments_resume (fst (documents_list env (Some (0, 100)) (server w))),
            KnowledgeBase_fetchStats_resume
              (fst (knowledge_statistics env (snd (documents_list env (Some (0, 100)) (server w)))))]
   \<and> kb_documents (run_task env (KnowledgeBase_fetchDocuments_resume (Inr docs)) w) = docs
   \<and> kb_stats (run_task env (KnowledgeBase_fetchStats_resume (Inr st)) w) = Some st
   \<and> snd (KnowledgeBase_mount env w) = None
   \<and> listeners (documentEvents (fst (KnowledgeBase_mount env w))) UPLOADED
       = listeners (documentEvents w) UPLOADED @ [KnowledgeBase_handleDocumentChange]
   \<and> listeners (documentEvents (fst (KnowledgeBase_mount env w))) DELETED
       = listeners (documentEvents w) DELETED @ [KnowledgeBase_handleDocumentChange]"
proof -
  have one: "emitted (onDrop env [file] w)
       = emitted w @ (if isl (fst (documents_upload env file (server w))) then [] else [UPLOADED])"
    by (simp add: onDrop_def refreshDocuments_fields onDrop_file_trace)
  have ev: "event = UPLOADED \<or> event = DELETED \<longrightarrow>
         fst (emit (run_listener env) event () (documentEvents w) (w\<lparr>emitted := emitted w @ [event]\<rparr>))
           = listeners (documentEvents w) event
       \<and> snd (documentEvents_emit env event w) = None
       \<and> map fst (requests (fst (documentEvents_emit env event w)))
           = map fst (requests w) @ concat (map listener_requests (listeners (documentEvents w) event))"
  proof
    assume "event = UPLOADED \<or> event = DELETED"
    then have plain: "event \<notin> set object_prototype_keys"
      using document_events_plain by blast
    show "fst (emit (run_listener env) event () (documentEvents w) (w\<lparr>emitted := emitted w @ [event]\<rparr>))
           = listeners (documentEvents w) event
       \<and> snd (documentEvents_emit env event w) = None
       \<and> map fst (requests (fst (documentEvents_emit env event w)))
           = map fst (requests w) @ concat (map listener_requests (listeners (documentEvents w) event))"
      using emit_listeners [OF plain, of env "documentEvents w" "w\<lparr>emitted := emitted w @ [event]\<rparr>"]
      by (simp add: documentEvents_emit_def)
  qed
  have handler: "map fst (requests (fst (run_listener env KnowledgeBase_handleDocumentChange () w)))
       = map fst (requests w) @ [GET_documents_list (Some (0, 100)), GET_knowledge_statistics]"
    using run_listener_requests [of env KnowledgeBase_handleDocumentChange "()" w] by simp
  have stored: "kb_documents (run_task env (KnowledgeBase_fetchDocuments_resume (Inr docs)) w) = docs"
    "kb_stats (run_task env (KnowledgeBase_fetchStats_resume (Inr st)) w) = Some st"
    by (simp_all add: KnowledgeBase_fetchDocuments_then_def KnowledgeBase_fetchStats_then_def)
  show ?thesis
    using onDrop_trace [of env files w] one handleDelete_emitted [of env answer i w]
      KnowledgeBase_deleteDocument_emitted [of env answer i w] ev handler
      handler_pending [of env "()" w] stored KnowledgeBase_mount_listeners [of env w]
    by (intro conjI) assumption+
qed

theorem document_change_notifications_witness:
  "emitted (onDrop online [notes_txt] (fst (KnowledgeBase_mount online (initial (0::nat)))))
     = [UPLOADED]
   \<and> map fst (requests (onDrop online [notes_txt]
                          (fst (KnowledgeBase_mount online (initial (0::nat))))))
     = [GET_knowledge_statistics, GET_documents_list (Some (0, 100)),
        POST_documents_upload notes_txt, GET_documents_list None,
        GET_documents_list (Some (0, 100)), GET_knowledge_statistics,
        GET_documents_list None]
   \<and> emitted (handleDelete online True ''d1'' (initial (0::nat))) = [DELETED]
   \<and> emitted (handleDelete offline True ''d1'' (initial ())) = []
   \<and> emitted (KnowledgeBase_deleteDocument online True ''d1'' (initial (0::nat))) = [DELETED]
   \<and> emitted (KnowledgeBase_deleteDocument online False ''d1'' (initial (0::nat))) = []"
proof -
  let ?w = "fst (KnowledgeBase_mount online (initial (0::nat)))"
  have "emitted (onDrop online [notes_txt] ?w)
       = emitted ?w @ (if isl (fst (documents_upload online notes_txt (server ?w))) then []
                       else [UPLOADED])"
    by (rule document_change_notifications [THEN conjunct2, THEN conjunct1])
  moreover have "emitted ?w = []"
    by (simp add: KnowledgeBase_mount_def Let_def KnowledgeBase_fetch_fields initial_def
        split: sum.splits)
  moreover have "fst (documents_upload online notes_txt (server ?w)) = Inr ()"
    by (simp add: online_def)
  ultimately have uploaded: "emitted (onDrop online [notes_txt] ?w) = [UPLOADED]"
    by simp
  have sent: "map fst (requests (onDrop online [notes_txt] ?w))
     = [GET_knowledge_statistics, GET_documents_list (Some (0, 100)),
        POST_documents_upload notes_txt, GET_documents_list None,
        GET_documents_list (Some (0, 100)), GET_knowledge_statistics,
        GET_documents_list None]"
    by (simp add: onDrop_def onDrop_file_def onDrop_try_def uploadDocument_def
        refreshDocuments_def refreshDocuments_await_def refreshDocuments_then_def api_alt
        online_def initial_def documentEvents_emit_def emit_def events_get_def
        new_EventEmitter_def UPLOADED_def DELETED_def object_prototype_keys_def
        uploadingFiles_add_def uploadingFiles_delete_def Let_def KnowledgeBase_mount_def
        KnowledgeBase_fetchDocuments_def KnowledgeBase_fetchStats_def on_def)
  have deleted: "emitted (handleDelete online True ''d1'' (initial (0::nat))) = [DELETED]
     \<and> emitted (handleDelete offline True ''d1'' (initial ())) = []
     \<and> emitted (KnowledgeBase_deleteDocument online True ''d1'' (initial (0::nat))) = [DELETED]
     \<and> emitted (KnowledgeBase_deleteDocument online False ''d1'' (initial (0::nat))) = []"
    using document_change_notifications [where env = online and w = "initial (0::nat)"
            and answer = True and i = "''d1''"]
      document_change_notifications [where env = offline and w = "initial ()"
            and answer = True and i = "''d1''"]
      document_change_notifications [where env = online and w = "initial (0::nat)"
            and answer = False and i = "''d1''"]
    by (simp add: online_def offline_def initial_def)
  from uploaded sent deleted show ?thesis by (intro conjI) (assumption | erule conjE)+
qed

section \<open>Properties of the ingestion pipeline\<close>

lemma delete_document_entries:
  "\<forall>e \<in> set (entries (delete_document d idx)). e_doc e \<noteq> d"
  "filter (\<lambda>e. e_doc e \<noteq> d) (entries (delete_document d idx))
     = filter (\<lambda>e. e_doc e \<noteq> d) (entries idx)"
  "dimension (delete_document d idx) = dimension idx"
  by (simp_all add: delete_document_def)

lemma upsert_others:
  assumes "upsert e idx = Inr idx'" and "e_doc e = d"
  shows "filter (\<lambda>x. e_doc x \<noteq> d) (entries idx') = filter (\<lambda>x. e_doc x \<noteq> d) (entries idx)"
    and "dimension idx' = dimension idx"
proof -
  have idx': "idx' = idx\<lparr>entries := filter (\<lambda>x. \<not> (e_doc x = e_doc e \<and> e_fragment x = e_fragment e))
                                     (entries idx) @ [e]\<rparr>"
    using assms(1) by (simp add: upsert_def split: if_splits)
  have "filter (\<lambda>x. e_doc x \<noteq> d)
          (filter (\<lambda>x. \<not> (e_doc x = d \<and> e_fragment x = e_fragment e)) xs)
        = filter (\<lambda>x. e_doc x \<noteq> d) xs" for xs :: "'a entry list"
    by (induction xs) auto
  then show "filter (\<lambda>x. e_doc x \<noteq> d) (entries idx') = filter (\<lambda>x. e_doc x \<noteq> d) (entries idx)"
    using assms(2) by (simp add: idx')
  show "dimension idx' = dimension idx"
    by (simp add: idx')
qed

lemma index_all_others:
  assumes "\<forall>e \<in> set es. e_doc e = d"
  shows "filter (\<lambda>x. e_doc x \<noteq> d) (entries (fst (index_all c es idx)))
           = filter (\<lambda>x. e_doc x \<noteq> d) (entries idx)
         \<and> dimension (fst (index_all c es idx)) = dimension idx"
  using assms
proof (induction es arbitrary: idx)
  case Nil
  show ?case by simp
next
  case (Cons e es)
  show ?case
  proof (cases "cap_writable c e")
    case False
    then show ?thesis by simp
  next
    case True
    show ?thesis
    proof (cases "upsert e idx")
      case (Inl err)
      then show ?thesis using True by simp
    next
      case (Inr idx')
      have d: "e_doc e = d" using Cons.prems by simp
      have rest: "\<forall>e \<in> set es. e_doc e = d" using Cons.prems by simp
      show ?thesis
        using True Inr Cons.IH [OF rest, of idx'] upsert_others [OF Inr d] by simp
    qed
  qed
qed

lemma fail_ingestion_fields:
  "\<forall>e \<in> set (entries (index (fail_ingestion d stages err idx))). e_doc e \<noteq> d"
  "filter (\<lambda>e. e_doc e \<noteq> d) (entries (index (fail_ingestion d stages err idx)))
     = filter (\<lambda>e. e_doc e \<noteq> d) (entries idx)"
  "dimension (index (fail_ingestion d stages err idx)) = dimension idx"
  "final (fail_ingestion d stages err idx) = Failed"
  "failure (fail_ingestion d stages err idx) = Some err"
  "last (visited (fail_ingestion d stages err idx)) = Failed"
  by (simp_all add: fail_ingestion_def delete_document_def)

lemma ingest_cases:
  "(\<exists>stages err idx1.
       ingest c d bytes idx = fail_ingestion d stages err idx1
     \<and> filter (\<lambda>e. e_doc e \<noteq> d) (entries idx1) = filter (\<lambda>e. e_doc e \<noteq> d) (entries idx)
     \<and> dimension idx1 = dimension idx)
   \<or> (\<exists>idx1.
       ingest c d bytes idx
         = \<lparr>index = idx1, final = Processed,
            visited = [Pending, Extracting, Chunking, Embedding, Indexing, Processed],
            failure = None\<rparr>
     \<and> filter (\<lambda>e. e_doc e \<noteq> d) (entries idx1) = filter (\<lambda>e. e_doc e \<noteq> d) (entries idx)
     \<and> dimension idx1 = dimension idx)"
proof -
  let ?idx0 = "delete_document d idx"
  have base: "filter (\<lambda>e. e_doc e \<noteq> d) (entries ?idx0) = filter (\<lambda>e. e_doc e \<noteq> d) (entries idx)"
    "dimension ?idx0 = dimension idx"
    by (simp_all add: delete_document_def)
  show ?thesis
  proof (cases "cap_extract c bytes")
    case (Inl err)
    then have "ingest c d bytes idx = fail_ingestion d [Pending, Extracting] err ?idx0"
      by (simp add: ingest_def)
    with base show ?thesis by blast
  next
    case extracted: (Inr plain)
    show ?thesis
    proof (cases "cap_chunk c plain")
      case (Inl err)
      then have "ingest c d bytes idx = fail_ingestion d [Pending, Extracting, Chunking] err ?idx0"
        using extracted by (simp add: ingest_def)
      with base show ?thesis by blast
    next
      case frags: (Inr frags)
      show ?thesis
      proof (cases "cap_embed c (map fr_text frags)")
        case (Inl err)
        then have "ingest c d bytes idx
            = fail_ingestion d [Pending, Extracting, Chunking, Embedding] err ?idx0"
          using extracted frags by (simp add: ingest_def)
        with base show ?thesis by blast
      next
        case vecs: (Inr vecs)
        show ?thesis
        proof (cases "length vecs \<noteq> length frags")
          case True
          then have "ingest c d bytes idx
              = fail_ingestion d [Pending, Extracting, Chunking, Embedding]
                  EmbeddingUnavailable ?idx0"
            using extracted frags vecs by (simp add: ingest_def)
          with base show ?thesis by blast
        next
          case False
          let ?es = "map (\<lambda>(fr, v). \<lparr>e_doc = d, e_fragment = fr_index fr,
                                      e_vector = v, e_text = fr_text fr\<rparr>) (zip frags vecs)"
          have own: "\<forall>e \<in> set ?es. e_doc e = d"
            by auto
          obtain idx1 r where written: "index_all c ?es ?idx0 = (idx1, r)"
            by (cases "index_all c ?es ?idx0")
          have kept: "filter (\<lambda>x. e_doc x \<noteq> d) (entries idx1)
                        = filter (\<lambda>x. e_doc x \<noteq> d) (entries idx)"
            "dimension idx1 = dimension idx"
            using index_all_others [OF own, of c ?idx0] written base by simp_all
          show ?thesis
          proof (cases r)
            case None
            then have "ingest c d bytes idx
                = \<lparr>index = idx1, final = Processed,
                   visited = [Pending, Extracting, Chunking, Embedding, Indexing, Processed],
                   failure = None\<rparr>"
              using extracted frags vecs False written by (simp add: ingest_def)
            with kept show ?thesis by blast
          next
            case (Some err)
            then have "ingest c d bytes idx
                = fail_ingestion d [Pending, Extracting, Chunking, Embedding, Indexing] err idx1"
              using extracted frags vecs False written by (simp add: ingest_def)
            with kept show ?thesis by blast
          qed
        qed
      qed
    qed
  qed
qed

text \<open>
  C2. Whatever stage of an ingestion fails (extraction, chunking, embedding, or a
  write to the index), the document ends in the state \<open>failed\<close> with the error of
  that stage, and the index then holds no entry of that document: what was written
  for it before the failure, and what an earlier ingestion had left, is deleted. The
  entries of all other documents are the same as before, in the same order. An
  ingestion always ends, in \<open>failed\<close> or in \<open>processed\<close>.
\<close>

theorem failed_ingestion_is_rolled_back:
  "(final (ingest c d bytes idx) = Failed
      \<longrightarrow> (\<forall>e \<in> set (entries (index (ingest c d bytes idx))). e_doc e \<noteq> d))
   \<and> filter (\<lambda>e. e_doc e \<noteq> d) (entries (index (ingest c d bytes idx)))
       = filter (\<lambda>e. e_doc e \<noteq> d) (entries idx)
   \<and> (final (ingest c d bytes idx) = Failed \<or> final (ingest c d bytes idx) = Processed)
   \<and> (final (ingest c d bytes idx) = Failed) = (failure (ingest c d bytes idx) \<noteq> None)
   \<and> last (visited (ingest c d bytes idx)) = final (ingest c d bytes idx)
   \<and> (\<forall>err. cap_extract c bytes = Inl err
         \<longrightarrow> failure (ingest c d bytes idx) = Some err)
   \<and> (\<forall>plain err. cap_extract c bytes = Inr plain \<and> cap_chunk c plain = Inl err
         \<longrightarrow> failure (ingest c d bytes idx) = Some err)
   \<and> (\<forall>plain frags err. cap_extract c bytes = Inr plain \<and> cap_chunk c plain = Inr frags
           \<and> cap_embed c (map fr_text frags) = Inl err
         \<longrightarrow> failure (ingest c d bytes idx) = Some err)
   \<and> (\<forall>plain frags vecs err. cap_extract c bytes = Inr plain \<and> cap_chunk c plain = Inr frags
           \<and> cap_embed c (map fr_text frags) = Inr vecs \<and> length vecs = length frags
           \<and> snd (index_all c (map (\<lambda>(fr, v). \<lparr>e_doc = d, e_fragment = fr_index fr,
                                                 e_vector = v, e_text = fr_text fr\<rparr>)
                                   (zip frags vecs)) (delete_document d idx)) = Some err
         \<longrightarrow> failure (ingest c d bytes idx) = Some err)"
proof -
  let ?r = "ingest c d bytes idx"
  have shape: "((final ?r = Failed \<longrightarrow> (\<forall>e \<in> set (entries (index ?r)). e_doc e \<noteq> d))
      \<and> filter (\<lambda>e. e_doc e \<noteq> d) (entries (index ?r)) = filter (\<lambda>e. e_doc e \<noteq> d) (entries idx))
      \<and> (final ?r = Failed \<or> final ?r = Processed)
      \<and> (final ?r = Failed) = (failure ?r \<noteq> None)
      \<and> last (visited ?r) = final ?r"
    using ingest_cases [of c d bytes idx]
  proof (elim disjE exE conjE)
    fix stages err idx1
    assume r: "?r = fail_ingestion d stages err idx1"
      and kept: "filter (\<lambda>e. e_doc e \<noteq> d) (entries idx1) = filter (\<lambda>e. e_doc e \<noteq> d) (entries idx)"
    show ?thesis
      unfolding r using kept by (simp add: fail_ingestion_fields)
  next
    fix idx1
    assume r: "?r = \<lparr>index = idx1, final = Processed,
            visited = [Pending, Extracting, Chunking, Embedding, Indexing, Processed],
            failure = None\<rparr>"
      and kept: "filter (\<lambda>e. e_doc e \<noteq> d) (entries idx1) = filter (\<lambda>e. e_doc e \<noteq> d) (entries idx)"
    show ?thesis
      unfolding r using kept by simp
  qed
  have s1: "\<forall>err. cap_extract c bytes = Inl err \<longrightarrow> failure ?r = Some err"
    by (simp add: ingest_def fail_ingestion_def)
  have s2: "\<forall>plain err. cap_extract c bytes = Inr plain \<and> cap_chunk c plain = Inl err
         \<longrightarrow> failure ?r = Some err"
    by (simp add: ingest_def fail_ingestion_def)
  have s3: "\<forall>plain frags err. cap_extract c bytes = Inr plain \<and> cap_chunk c plain = Inr frags
           \<and> cap_embed c (map fr_text frags) = Inl err
         \<longrightarrow> failure ?r = Some err"
    by (simp add: ingest_def fail_ingestion_def)
  have s4: "\<forall>plain frags vecs err. cap_extract c bytes = Inr plain \<and> cap_chunk c plain = Inr frags
           \<and> cap_embed c (map fr_text frags) = Inr vecs \<and> length vecs = length frags
           \<and> snd (index_all c (map (\<lambda>(fr, v). \<lparr>e_doc = d, e_fragment = fr_index fr,
                                                 e_vector = v, e_text = fr_text fr\<rparr>)
                                   (zip frags vecs)) (delete_document d idx)) = Some err
         \<longrightarrow> failure ?r = Some err"
    by (auto simp add: ingest_def fail_ingestion_def split: prod.splits)
  from shape s1 s2 s3 s4 show ?thesis by blast
qed

theorem failed_ingestion_is_rolled_back_witness:
  "final (ingest flaky_store ''d1'' ''hello world'' two_documents) = Failed
   \<and> failure (ingest flaky_store ''d1'' ''hello world'' two_documents) = Some IndexWriteFailed
   \<and> visited (ingest flaky_store ''d1'' ''hello world'' two_documents)
       = [Pending, Extracting, Chunking, Embedding, Indexing, Failed]
   \<and> entries (index (ingest flaky_store ''d1'' ''hello world'' two_documents))
       = [\<lparr>e_doc = ''other'', e_fragment = 0, e_vector = [1, 0], e_text = ''kept''\<rparr>]
   \<and> fst (index_all flaky_store
            [\<lparr>e_doc = ''d1'', e_fragment = 0, e_vector = [5, 1], e_text = ''hello''\<rparr>,
             \<lparr>e_doc = ''d1'', e_fragment = 1, e_vector = [8, 1], e_text = ''lo world''\<rparr>]
            (delete_document ''d1'' two_documents))
       = \<lparr>dimension = 2,
          entries = [\<lparr>e_doc = ''other'', e_fragment = 0, e_vector = [1, 0], e_text = ''kept''\<rparr>,
                     \<lparr>e_doc = ''d1'', e_fragment = 0, e_vector = [5, 1], e_text = ''hello''\<rparr>]\<rparr>"
proof -
  let ?r = "ingest flaky_store ''d1'' ''hello world'' two_documents"
  have run: "final ?r = Failed \<and> failure ?r = Some IndexWriteFailed
     \<and> visited ?r = [Pending, Extracting, Chunking, Embedding, Indexing, Failed]"
    by (simp add: ingest_def fail_ingestion_def flaky_store_def two_documents_def upsert_def
        delete_document_def)
  have partial: "fst (index_all flaky_store
            [\<lparr>e_doc = ''d1'', e_fragment = 0, e_vector = [5, 1], e_text = ''hello''\<rparr>,
             \<lparr>e_doc = ''d1'', e_fragment = 1, e_vector = [8, 1], e_text = ''lo world''\<rparr>]
            (delete_document ''d1'' two_documents))
       = \<lparr>dimension = 2,
          entries = [\<lparr>e_doc = ''other'', e_fragment = 0, e_vector = [1, 0], e_text = ''kept''\<rparr>,
                     \<lparr>e_doc = ''d1'', e_fragment = 0, e_vector = [5, 1], e_text = ''hello''\<rparr>]\<rparr>"
    by (simp add: flaky_store_def two_documents_def upsert_def delete_document_def)
  have none_left: "\<forall>e \<in> set (entries (index ?r)). e_doc e \<noteq> ''d1''"
    using failed_ingestion_is_rolled_back [of flaky_store "''d1''" "''hello world''" two_documents]
      run by blast
  have others: "filter (\<lambda>e. e_doc e \<noteq> ''d1'') (entries (index ?r))
      = filter (\<lambda>e. e_doc e \<noteq> ''d1'') (entries two_documents)"
    by (rule failed_ingestion_is_rolled_back [THEN conjunct2, THEN conjunct1])
  have "filter (\<lambda>e. e_doc e \<noteq> ''d1'') (entries (index ?r)) = entries (index ?r)"
    using none_left by (simp add: filter_id_conv)
  then have left: "entries (index ?r)
      = [\<lparr>e_doc = ''other'', e_fragment = 0, e_vector = [1, 0], e_text = ''kept''\<rparr>]"
    using others by (simp add: two_documents_def)
  from run left partial show ?thesis by (intro conjI) (assumption | erule conjE)+
qed

end
